theory Spec2Isabelle
  imports Complex_Main "HOL-Library.Word"
begin

section \<open>The OCR demo pipeline of \<^verbatim>\<open>app.py\<close>\<close>

text \<open>
  \<^verbatim>\<open>app.py\<close> wires four functions into one request: \<^verbatim>\<open>extract_text\<close>,
  \<^verbatim>\<open>segment_visual_elements\<close>, \<^verbatim>\<open>save_visual_elements\<close> and \<^verbatim>\<open>generate_html\<close>.
  Everything substantial is a call into a library (pytesseract, OpenCV, \<^verbatim>\<open>os\<close>,
  Streamlit). The libraries are not part of the program, so the embedding takes their
  behaviour as a parameter: a record \<open>env\<close> with one field per library routine the
  program calls. A routine that can raise returns \<open>py_exc + 'a\<close>, with \<open>Inl\<close> for the
  exception. The program's own control flow (the \<^verbatim>\<open>try\<close>/\<^verbatim>\<open>except\<close> blocks, the
  loops, the string building) is translated line by line.
\<close>

subsection \<open>Exceptions\<close>

text \<open>
  The handlers of the program distinguish three classes of exception object:
  \<^item> \<open>TesseractError\<close>: an instance of \<^verbatim>\<open>pytesseract.TesseractError\<close>;
  \<^item> \<open>Exception\<close>: any other instance of Python's \<^verbatim>\<open>Exception\<close>;
  \<^item> \<open>BaseException\<close>: an instance of \<^verbatim>\<open>BaseException\<close> that is not an
    \<^verbatim>\<open>Exception\<close> (\<^verbatim>\<open>KeyboardInterrupt\<close>, \<^verbatim>\<open>SystemExit\<close>), which
    \<^verbatim>\<open>except Exception\<close> lets through.
  The string carried is \<^verbatim>\<open>str(e)\<close>, which the handlers format into their message.
\<close>

datatype py_exc = TesseractError string | Exception string | BaseException string

fun exc_str :: "py_exc \<Rightarrow> string" where
  "exc_str (TesseractError m) = m"
| "exc_str (Exception m) = m"
| "exc_str (BaseException m) = m"

text \<open>What a clause \<^verbatim>\<open>except Exception\<close> catches.\<close>

fun is_Exception :: "py_exc \<Rightarrow> bool" where
  "is_Exception (TesseractError m) = True"
| "is_Exception (Exception m) = True"
| "is_Exception (BaseException m) = False"

subsection \<open>Data\<close>

text \<open>
  A colour image is a \<^verbatim>\<open>numpy\<close> array of shape (height, width, 3) of bytes: a list of
  rows of BGR pixels. A grayscale or binary image has one byte per pixel. A contour is
  the sequence of its points (x, y), as OpenCV returns it. A Python variable that may
  hold \<^verbatim>\<open>None\<close> has an option type. The decoded upload that \<^verbatim>\<open>extract_text\<close>
  receives, a PIL image, is a grid of pixels too. An area is a Python float that the
  program only compares with 1000; the comparison is exact, so it is a real number here.
\<close>

type_synonym pixel = "8 word \<times> 8 word \<times> 8 word"
type_synonym image = "pixel list list"
type_synonym gray = "8 word list list"
type_synonym contour = "(int \<times> int) list"
type_synonym rect = "int \<times> int \<times> int \<times> int"
type_synonym hierarchy = "(int \<times> int \<times> int \<times> int) list"

subsection \<open>Effects\<close>

text \<open>
  The state threaded through the program is the list of effects it has had on the
  outside, oldest first: an error message shown by \<^verbatim>\<open>st.error\<close>, a directory made
  by \<^verbatim>\<open>os.makedirs\<close>, a file written by \<^verbatim>\<open>cv2.imwrite\<close> (recorded when
  \<^verbatim>\<open>imwrite\<close> returns \<^verbatim>\<open>True\<close>). An effect made inside a \<^verbatim>\<open>try\<close> block stays
  when the block is left by an exception.
\<close>

datatype event = StError string | MakeDirs string | ImWrite string image

type_synonym world = "event list"

subsection \<open>The library routines the program calls\<close>

record env =
  image_to_string :: "image \<Rightarrow> py_exc + string"
  cv2_imread :: "string \<Rightarrow> py_exc + image option"
  cv2_cvtColor :: "image option \<Rightarrow> int \<Rightarrow> py_exc + gray"
  cv2_threshold :: "gray \<Rightarrow> int \<Rightarrow> int \<Rightarrow> int \<Rightarrow> py_exc + (real \<times> gray)"
  cv2_findContours :: "gray \<Rightarrow> int \<Rightarrow> int \<Rightarrow> py_exc + (contour list \<times> hierarchy)"
  cv2_contourArea :: "contour \<Rightarrow> py_exc + real"
  cv2_boundingRect :: "contour \<Rightarrow> py_exc + rect"
  cv2_imwrite :: "string \<Rightarrow> image \<Rightarrow> py_exc + bool"
  os_path_exists :: "string \<Rightarrow> bool"
  os_makedirs :: "string \<Rightarrow> py_exc + unit"
  os_path_join :: "string \<Rightarrow> string \<Rightarrow> string"
  st_image :: "string \<Rightarrow> py_exc + unit"

text \<open>The OpenCV constants the program passes.\<close>

definition COLOR_BGR2GRAY :: int where "COLOR_BGR2GRAY = 6"
definition THRESH_BINARY_INV :: int where "THRESH_BINARY_INV = 1"
definition THRESH_OTSU :: int where "THRESH_OTSU = 8"
definition RETR_EXTERNAL :: int where "RETR_EXTERNAL = 0"
definition CHAIN_APPROX_SIMPLE :: int where "CHAIN_APPROX_SIMPLE = 2"

subsection \<open>\<^verbatim>\<open>extract_text\<close>\<close>

definition extraction_failed :: string where
  "extraction_failed = ''Text extraction failed. Please try again.''"

definition extract_text :: "env \<Rightarrow> image \<Rightarrow> world \<Rightarrow> (py_exc + string) \<times> world" where
  "extract_text env img s =
     (case image_to_string env img of
        Inr text \<Rightarrow> (Inr text, s)
      | Inl (TesseractError m) \<Rightarrow>
          (Inr extraction_failed,
           s @ [StError (''An error occurred while extracting text: '' @ m)])
      | Inl (Exception m) \<Rightarrow>
          (Inr extraction_failed,
           s @ [StError (''An unexpected error occurred while extracting text: '' @ m)])
      | Inl (BaseException m) \<Rightarrow> (Inl (BaseException m), s))"

subsection \<open>\<^verbatim>\<open>segment_visual_elements\<close>\<close>

text \<open>The loop over \<^verbatim>\<open>contours\<close>, with \<^verbatim>\<open>filtered_contours\<close> as accumulator.\<close>

fun filter_loop :: "env \<Rightarrow> contour list \<Rightarrow> contour list \<Rightarrow> py_exc + contour list" where
  "filter_loop env [] filtered_contours = Inr filtered_contours"
| "filter_loop env (contour # rest) filtered_contours =
     (case cv2_contourArea env contour of
        Inl e \<Rightarrow> Inl e
      | Inr area \<Rightarrow>
          filter_loop env rest
            (if area > 1000 then filtered_contours @ [contour] else filtered_contours))"

text \<open>The body of the \<^verbatim>\<open>try\<close> block.\<close>

definition segment_try :: "env \<Rightarrow> string \<Rightarrow> py_exc + (image option \<times> contour list)" where
  "segment_try env image_path =
     (case cv2_imread env image_path of Inl e \<Rightarrow> Inl e | Inr img \<Rightarrow>
      case cv2_cvtColor env img COLOR_BGR2GRAY of Inl e \<Rightarrow> Inl e | Inr gray \<Rightarrow>
      case cv2_threshold env gray 128 255 (THRESH_BINARY_INV + THRESH_OTSU) of
        Inl e \<Rightarrow> Inl e | Inr (_, binary) \<Rightarrow>
      case cv2_findContours env binary RETR_EXTERNAL CHAIN_APPROX_SIMPLE of
        Inl e \<Rightarrow> Inl e | Inr (contours, _) \<Rightarrow>
      case filter_loop env contours [] of
        Inl e \<Rightarrow> Inl e | Inr filtered_contours \<Rightarrow> Inr (img, filtered_contours))"

definition segment_visual_elements ::
  "env \<Rightarrow> string \<Rightarrow> world \<Rightarrow> (py_exc + (image option \<times> contour list)) \<times> world" where
  "segment_visual_elements env image_path s =
     (case segment_try env image_path of
        Inr r \<Rightarrow> (Inr r, s)
      | Inl e \<Rightarrow>
          if is_Exception e
          then (Inr (None, []),
                s @ [StError (''An error occurred while segmenting visual elements: '' @ exc_str e)])
          else (Inl e, s))"

subsection \<open>\<^verbatim>\<open>save_visual_elements\<close>\<close>

text \<open>
  A slice \<^verbatim>\<open>a[start:stop]\<close> of Python and \<^verbatim>\<open>numpy\<close>: a negative bound counts from
  the end, and both bounds are clipped to the length; it never raises.
\<close>

definition py_slice :: "'a list \<Rightarrow> int \<Rightarrow> int \<Rightarrow> 'a list" where
  "py_slice xs start stop =
     (let n = int (length xs);
          lo = (if start < 0 then max (start + n) 0 else min start n);
          hi = (if stop < 0 then max (stop + n) 0 else min stop n)
      in take (nat (hi - lo)) (drop (nat lo) xs))"

text \<open>
  \<^verbatim>\<open>image[y:y+h, x:x+w]\<close>. Subscripting \<^verbatim>\<open>None\<close> raises a \<^verbatim>\<open>TypeError\<close> whose
  \<^verbatim>\<open>str\<close> is \<^verbatim>\<open>'NoneType' object is not subscriptable\<close>; the character 0x27 is the
  single quote.
\<close>

definition not_subscriptable :: string where
  "not_subscriptable = [CHR 0x27] @ ''NoneType'' @ [CHR 0x27] @ '' object is not subscriptable''"

definition crop :: "image option \<Rightarrow> int \<Rightarrow> int \<Rightarrow> int \<Rightarrow> int \<Rightarrow> py_exc + image" where
  "crop img x y w h =
     (case img of
        None \<Rightarrow> Inl (Exception not_subscriptable)
      | Some a \<Rightarrow> Inr (map (\<lambda>row. py_slice row x (x + w)) (py_slice a y (y + h))))"

text \<open>The decimal digits of \<^verbatim>\<open>i\<close>, as the f-string \<^verbatim>\<open>f'element_{i}.png'\<close> formats them.\<close>

definition digit_char :: "nat \<Rightarrow> char" where
  "digit_char d = char_of (48 + d)"

function str_nat :: "nat \<Rightarrow> string" where
  "str_nat n = (if n < 10 then [digit_char n] else str_nat (n div 10) @ [digit_char (n mod 10)])"
  by pat_completeness auto
termination
  by (relation "measure id") auto

declare str_nat.simps [simp del]

definition element_name :: "nat \<Rightarrow> string" where
  "element_name i = ''element_'' @ str_nat i @ ''.png''"

text \<open>
  The loop over \<^verbatim>\<open>enumerate(contours)\<close>: \<open>i\<close> is the index of the next contour and
  \<open>element_paths\<close> the accumulator. The result of \<^verbatim>\<open>cv2.imwrite\<close> is not looked at.
\<close>

fun save_loop ::
  "env \<Rightarrow> image option \<Rightarrow> string \<Rightarrow> nat \<Rightarrow> contour list \<Rightarrow> string list \<Rightarrow> world
     \<Rightarrow> (py_exc + string list) \<times> world" where
  "save_loop env img output_dir i [] element_paths s = (Inr element_paths, s)"
| "save_loop env img output_dir i (contour # rest) element_paths s =
     (case cv2_boundingRect env contour of
        Inl e \<Rightarrow> (Inl e, s)
      | Inr (x, y, w, h) \<Rightarrow>
     (case crop img x y w h of
        Inl e \<Rightarrow> (Inl e, s)
      | Inr visual_element \<Rightarrow>
     (let element_path = os_path_join env output_dir (element_name i) in
      case cv2_imwrite env element_path visual_element of
        Inl e \<Rightarrow> (Inl e, s)
      | Inr written \<Rightarrow>
          save_loop env img output_dir (Suc i) rest (element_paths @ [element_path])
            (if written then s @ [ImWrite element_path visual_element] else s))))"

text \<open>The body of the \<^verbatim>\<open>try\<close> block.\<close>

definition save_try ::
  "env \<Rightarrow> image option \<Rightarrow> contour list \<Rightarrow> string \<Rightarrow> world \<Rightarrow> (py_exc + string list) \<times> world" where
  "save_try env img contours output_dir s =
     (if \<not> os_path_exists env output_dir
      then (case os_makedirs env output_dir of
              Inl e \<Rightarrow> (Inl e, s)
            | Inr _ \<Rightarrow> save_loop env img output_dir 0 contours [] (s @ [MakeDirs output_dir]))
      else save_loop env img output_dir 0 contours [] s)"

definition save_visual_elements ::
  "env \<Rightarrow> image option \<Rightarrow> contour list \<Rightarrow> string \<Rightarrow> world \<Rightarrow> (py_exc + string list) \<times> world" where
  "save_visual_elements env img contours output_dir s =
     (case save_try env img contours output_dir s of
        (Inr element_paths, s') \<Rightarrow> (Inr element_paths, s')
      | (Inl e, s') \<Rightarrow>
          if is_Exception e
          then (Inr [],
                s' @ [StError (''An error occurred while saving visual elements: '' @ exc_str e)])
          else (Inl e, s'))"

subsection \<open>\<^verbatim>\<open>generate_html\<close>\<close>

text \<open>
  The body builds one local string from its two arguments; it calls no library routine
  and touches nothing else, so its embedding takes neither \<open>env\<close> nor \<open>world\<close>.
\<close>

definition generate_html :: "string \<Rightarrow> string list \<Rightarrow> string" where
  "generate_html text element_paths =
     (let html_content = ''<html><body>'';
          html_content = html_content @ ''<p>'' @ text @ ''</p>'';
          html_content =
            foldl (\<lambda>html_content path. html_content @ ''<img src=\"'' @ path @ ''\" />'')
              html_content element_paths
      in html_content @ ''</body></html>'')"

subsection \<open>The processing block of \<^verbatim>\<open>main\<close>\<close>

text \<open>
  Lines 99 to 116 of \<^verbatim>\<open>main\<close>, run when a file was uploaded: \<open>img\<close> is the decoded upload
  (the local \<^verbatim>\<open>image\<close>) and \<open>image_path\<close> the temporary file it was saved to. The result is the
  \<^verbatim>\<open>html_content\<close> handed to the download button. Of the Streamlit calls only
  \<^verbatim>\<open>st.image(path)\<close> takes a value the stages computed and can fail on it (it opens
  the file), so it is a routine of \<open>env\<close>; the calls that display a heading or the
  text are not modelled.
\<close>

fun show_images :: "env \<Rightarrow> string list \<Rightarrow> py_exc + unit" where
  "show_images env [] = Inr ()"
| "show_images env (path # rest) =
     (case st_image env path of Inl e \<Rightarrow> Inl e | Inr _ \<Rightarrow> show_images env rest)"

definition main_body :: "env \<Rightarrow> image \<Rightarrow> string \<Rightarrow> world \<Rightarrow> (py_exc + string) \<times> world" where
  "main_body env img image_path s =
     (case extract_text env img s of
        (Inl e, s1) \<Rightarrow> (Inl e, s1)
      | (Inr text, s1) \<Rightarrow>
     (case segment_visual_elements env image_path s1 of
        (Inl e, s2) \<Rightarrow> (Inl e, s2)
      | (Inr (image_cv2, contours), s2) \<Rightarrow>
     (case save_visual_elements env image_cv2 contours ''output_elements'' s2 of
        (Inl e, s3) \<Rightarrow> (Inl e, s3)
      | (Inr element_paths, s3) \<Rightarrow>
     (case show_images env element_paths of
        Inl e \<Rightarrow> (Inl e, s3)
      | Inr _ \<Rightarrow> (Inr (generate_html text element_paths), s3)))))"

section \<open>A test scene\<close>

text \<open>
  Concrete inputs on which the theorems below are run: a 200 by 200 image, two square
  contours, and a library that succeeds everywhere and reports the areas 2500 and 500.
  What the library computes from the pixels is not modelled, so the pixel values play
  no role.
\<close>

definition white :: pixel where
  "white = (255, 255, 255)"

definition scene_200 :: image where
  "scene_200 = replicate 200 (replicate 200 white)"

definition square_2500 :: contour where
  "square_2500 = [(10, 10), (10, 60), (60, 60), (60, 10)]"

definition square_500 :: contour where
  "square_500 = [(100, 100), (100, 125), (120, 125), (120, 100)]"

definition env_ok :: env where
  "env_ok =
     \<lparr> image_to_string = (\<lambda>_. Inr ''INVOICE''),
       cv2_imread = (\<lambda>_. Inr (Some scene_200)),
       cv2_cvtColor = (\<lambda>_ _. Inr (replicate 200 (replicate 200 255))),
       cv2_threshold = (\<lambda>g _ _ _. Inr (128, g)),
       cv2_findContours = (\<lambda>_ _ _. Inr ([square_2500, square_500], [])),
       cv2_contourArea = (\<lambda>c. Inr (if c = square_2500 then 2500 else 500)),
       cv2_boundingRect = (\<lambda>c. Inr (if c = square_2500 then (10, 10, 51, 51) else (100, 100, 21, 26))),
       cv2_imwrite = (\<lambda>_ _. Inr True),
       os_path_exists = (\<lambda>_. False),
       os_makedirs = (\<lambda>_. Inr ()),
       os_path_join = (\<lambda>a b. a @ ''/'' @ b),
       st_image = (\<lambda>_. Inr ()) \<rparr>"

text \<open>
  Variants of the scene: a disk that fills up when the second element is written (both
  contours large enough to be kept), an OCR engine that fails, and an upload that
  \<^verbatim>\<open>cv2.imread\<close> cannot decode.
\<close>

definition env_disk_full :: env where
  "env_disk_full =
     env_ok \<lparr> cv2_contourArea := (\<lambda>_. Inr 2500),
              cv2_imwrite :=
                (\<lambda>path _. if path = ''output_elements/element_1.png''
                           then Inl (Exception ''disk full'') else Inr True) \<rparr>"

definition env_ocr_down :: env where
  "env_ocr_down = env_ok \<lparr> image_to_string := (\<lambda>_. Inl (TesseractError ''(1, Error opening data file)'')) \<rparr>"

definition env_unreadable :: env where
  "env_unreadable =
     env_ok \<lparr> cv2_imread := (\<lambda>_. Inr None),
              cv2_cvtColor := (\<lambda>img _. case img of
                                 None \<Rightarrow> Inl (Exception ''cv2.error: !_src.empty()'')
                               | Some _ \<Rightarrow> Inr []) \<rparr>"

text \<open>
  More variants, one for each library routine that can fail in
  \<^verbatim>\<open>save_visual_elements\<close> and \<^verbatim>\<open>segment_visual_elements\<close>: an \<^verbatim>\<open>imwrite\<close> that
  refuses an empty image, as OpenCV's does; a directory that cannot be made; a
  \<^verbatim>\<open>boundingRect\<close> that fails on the second contour; and an \<^verbatim>\<open>imread\<close>, a
  \<^verbatim>\<open>threshold\<close>, a \<^verbatim>\<open>findContours\<close> and a \<^verbatim>\<open>contourArea\<close> (on the second
  contour) that raise.
\<close>

definition env_strict :: env where
  "env_strict =
     env_ok \<lparr> cv2_imwrite :=
       (\<lambda>_ v. if v = [] \<or> [] \<in> set v then Inl (Exception ''cv2.error: !_img.empty()'') else Inr True) \<rparr>"

definition env_no_permission :: env where
  "env_no_permission = env_ok \<lparr> os_makedirs := (\<lambda>_. Inl (Exception ''[Errno 13] Permission denied'')) \<rparr>"

definition env_bad_contour :: env where
  "env_bad_contour =
     env_ok \<lparr> cv2_boundingRect :=
       (\<lambda>c. if c = square_2500 then Inr (10, 10, 51, 51) else Inl (Exception ''cv2.error: npoints >= 0'')) \<rparr>"

definition env_imread_raises :: env where
  "env_imread_raises = env_ok \<lparr> cv2_imread := (\<lambda>_. Inl (Exception ''cv2.error: bad allocation'')) \<rparr>"

definition env_threshold_raises :: env where
  "env_threshold_raises =
     env_ok \<lparr> cv2_threshold := (\<lambda>_ _ _ _. Inl (Exception ''cv2.error: src.type() == CV_8UC1'')) \<rparr>"

definition env_findContours_raises :: env where
  "env_findContours_raises =
     env_ok \<lparr> cv2_findContours := (\<lambda>_ _ _. Inl (Exception ''cv2.error: unsupported format'')) \<rparr>"

definition env_area_raises :: env where
  "env_area_raises =
     env_ok \<lparr> cv2_contourArea :=
       (\<lambda>c. if c = square_2500 then Inr 2500 else Inl (Exception ''cv2.error: npoints >= 0'')) \<rparr>"

section \<open>The geometry of a contour\<close>

text \<open>
  Modelled from the spec: \<^verbatim>\<open>cv2.boundingRect\<close> is a routine of OpenCV and is not under
  \<^verbatim>\<open>src/\<close>. The spec (4.3) has the element materializer compute, for a contour, "its
  minimal axis-aligned bounding rectangle", and (3) makes a contour "a polygon (ordered
  sequence of 2D points)" and a bounding box "(x, y, width, height) integers". The points
  are pixel coordinates, so the smallest rectangle of pixels that holds them all starts
  at the least x and y and is the greatest minus the least, plus one, wide and high.
  A contour with no point has the empty rectangle.
\<close>

definition boundingRect_spec :: "contour \<Rightarrow> rect" where
  "boundingRect_spec c =
     (if c = [] then (0, 0, 0, 0)
      else (let xs = map fst c; ys = map snd c
            in (Min (set xs), Min (set ys),
                Max (set xs) - Min (set xs) + 1, Max (set ys) - Min (set ys) + 1)))"

text \<open>
  Modelled from the spec: \<^verbatim>\<open>cv2.contourArea\<close> is a routine of OpenCV and is not under
  \<^verbatim>\<open>src/\<close>. The spec (4.2) filters on a contour's "enclosed area", in "pixels squared":
  the area enclosed by the polygon of the contour's points, which the shoelace formula
  gives. A contour with no point encloses nothing.
\<close>

definition contourArea_spec :: "contour \<Rightarrow> real" where
  "contourArea_spec c =
     \<bar>real_of_int (\<Sum>(p, q) \<leftarrow> zip c (rotate1 c). fst p * snd q - fst q * snd p)\<bar> / 2"

text \<open>The test scene with this geometry for the two routines.\<close>

definition env_geometry :: env where
  "env_geometry =
     env_ok \<lparr> cv2_contourArea := (\<lambda>c. Inr (contourArea_spec c)),
              cv2_boundingRect := (\<lambda>c. Inr (boundingRect_spec c)) \<rparr>"

section \<open>The report generator\<close>

text \<open>The loop of \<^verbatim>\<open>generate_html\<close> appends one tag per path to what it was given.\<close>

lemma img_loop:
  "foldl (\<lambda>html_content path. html_content @ ''<img src=\"'' @ path @ ''\" />'') acc element_paths =
     acc @ concat (map (\<lambda>path. ''<img src=\"'' @ path @ ''\" />'') element_paths)"
  by (induction element_paths arbitrary: acc) simp_all

lemma generate_html_closed:
  "generate_html text element_paths =
     ''<html><body><p>'' @ text @ ''</p>''
       @ concat (map (\<lambda>path. ''<img src=\"'' @ path @ ''\" />'') element_paths)
       @ ''</body></html>''"
  unfolding generate_html_def Let_def img_loop by simp

text \<open>
  C7. For every text and every list of paths the result is \<^verbatim>\<open><html><body>\<close>, one
  paragraph holding the text as it is, one \<^verbatim>\<open><img src="path" />\<close> per path in input
  order, and \<^verbatim>\<open></body></html>\<close>, and nothing else; for the empty text and no path it
  is exactly \<^verbatim>\<open><html><body><p></p></body></html>\<close>.
\<close>

theorem generate_html_structure:
  "generate_html text element_paths =
     ''<html><body>'' @ ''<p>'' @ text @ ''</p>''
       @ concat (map (\<lambda>path. ''<img src=\"'' @ path @ ''\" />'') element_paths)
       @ ''</body></html>''
   \<and> generate_html [] [] = ''<html><body><p></p></body></html>''"
  by (simp add: generate_html_closed)

text \<open>
  C10. A path goes into its \<^verbatim>\<open><img src="..." />\<close> tag as it is. So a path holding
  a double quote and an angle bracket breaks the tag structure: the report of the one
  path \<^verbatim>\<open>a" /><img src="b\<close> is the report of the two paths \<^verbatim>\<open>a\<close> and \<^verbatim>\<open>b\<close>.
  The text field behaves the same way: a text holding a tag puts an image into a report
  that was given no path.
\<close>

theorem generate_html_path_verbatim:
  "generate_html text [path] =
     ''<html><body><p>'' @ text @ ''</p><img src=\"'' @ path @ ''\" /></body></html>''
   \<and> CHR 0x22 \<in> set ''a\" /><img src=\"b''
   \<and> CHR ''<'' \<in> set ''a\" /><img src=\"b''
   \<and> generate_html text [''a\" /><img src=\"b''] = generate_html text [''a'', ''b'']
   \<and> generate_html ''</p><img src=\"x\" /><p>'' []
       = ''<html><body><p></p><img src=\"x\" /><p></p></body></html>''"
  by (simp add: generate_html_closed)

section \<open>Saving the elements\<close>

text \<open>What the loop returns when it returns, and what it does to the world.\<close>

lemma save_loop_paths:
  "save_loop env img output_dir i contours acc s = (Inr paths, s') \<Longrightarrow>
     paths = acc @ map (\<lambda>k. os_path_join env output_dir (element_name k)) [i..<i + length contours]"
proof (induction contours arbitrary: i acc s)
  case Nil
  then show ?case by simp
next
  case (Cons c cs)
  from Cons.prems obtain p where
    "save_loop env img output_dir (Suc i) cs (acc @ [os_path_join env output_dir (element_name i)]) p
       = (Inr paths, s')"
    by (auto simp: Let_def split: sum.splits prod.splits)
  from Cons.IH [OF this]
  have "paths = (acc @ [os_path_join env output_dir (element_name i)])
          @ map (\<lambda>k. os_path_join env output_dir (element_name k)) [Suc i..<Suc i + length cs]" .
  moreover have "[i..<i + length (c # cs)] = i # [Suc i..<Suc i + length cs]"
    by (simp add: upt_conv_Cons del: upt_Suc)
  ultimately show ?case by simp
qed

lemma save_loop_world:
  "\<exists>t. snd (save_loop env img output_dir i contours acc s) = s @ t"
proof (induction contours arbitrary: i acc s)
  case Nil
  then show ?case by simp
next
  case (Cons c cs)
  show ?case
  proof (cases "cv2_boundingRect env c")
    case (Inl e)
    then show ?thesis by simp
  next
    case (Inr r)
    obtain x y w h where r: "r = (x, y, w, h)" by (cases r) auto
    show ?thesis
    proof (cases "crop img x y w h")
      case (Inl e)
      with Inr r show ?thesis by simp
    next
      case crop: (Inr v)
      show ?thesis
      proof (cases "cv2_imwrite env (os_path_join env output_dir (element_name i)) v")
        case (Inl e)
        with Inr r crop show ?thesis by (simp add: Let_def)
      next
        case wr: (Inr b)
        from Cons.IH obtain t where
          "snd (save_loop env img output_dir (Suc i) cs (acc @ [os_path_join env output_dir (element_name i)])
             (if b then s @ [ImWrite (os_path_join env output_dir (element_name i)) v] else s))
           = (if b then s @ [ImWrite (os_path_join env output_dir (element_name i)) v] else s) @ t"
          by blast
        with Inr r crop wr show ?thesis by (simp add: Let_def split: if_splits)
      qed
    qed
  qed
qed

text \<open>The names of the first elements, and of one with a two-digit index.\<close>

lemma element_name_0: "element_name 0 = ''element_0.png''"
  by code_simp

lemma element_name_1: "element_name 1 = ''element_1.png''"
  by code_simp

lemma element_name_Suc_0: "element_name (Suc 0) = ''element_1.png''"
  using element_name_1 by simp

lemma element_name_12: "element_name 12 = ''element_12.png''"
  by code_simp

lemma crop_big: "crop (Some scene_200) 10 10 51 51 = Inr (replicate 51 (replicate 51 white))"
  by (simp add: crop_def py_slice_def scene_200_def)

lemma crop_small: "crop (Some scene_200) 100 100 21 26 = Inr (replicate 26 (replicate 21 white))"
  by (simp add: crop_def py_slice_def scene_200_def)

lemma squares_differ: "square_500 \<noteq> square_2500"
  by (simp add: square_500_def square_2500_def)

lemma save_try_paths:
  assumes "save_try env img contours output_dir s = (Inr paths, s')"
  shows "paths = map (\<lambda>i. os_path_join env output_dir (element_name i)) [0..<length contours]"
proof -
  from assms obtain s0 where "save_loop env img output_dir 0 contours [] s0 = (Inr paths, s')"
    by (auto simp: save_try_def split: if_splits sum.splits)
  from save_loop_paths [OF this] show ?thesis by simp
qed

text \<open>The loop on a list whose first part is processed without a failure.\<close>

lemma save_loop_append:
  assumes "\<forall>j<length pre. \<exists>x y w h v b.
             cv2_boundingRect env (pre ! j) = Inr (x, y, w, h)
             \<and> crop img x y w h = Inr v
             \<and> cv2_imwrite env (os_path_join env output_dir (element_name (i + j))) v = Inr b"
  shows "\<exists>s'. save_loop env img output_dir i pre acc s
              = (Inr (acc @ map (\<lambda>k. os_path_join env output_dir (element_name k)) [i..<i + length pre]), s')
            \<and> save_loop env img output_dir i (pre @ rest) acc s
              = save_loop env img output_dir (i + length pre) rest
                  (acc @ map (\<lambda>k. os_path_join env output_dir (element_name k)) [i..<i + length pre]) s'"
  using assms
proof (induction pre arbitrary: i acc s)
  case Nil
  then show ?case by simp
next
  case (Cons c cs)
  from Cons.prems [rule_format, of 0] obtain x y w h v b where
    c: "cv2_boundingRect env c = Inr (x, y, w, h)" "crop img x y w h = Inr v"
       "cv2_imwrite env (os_path_join env output_dir (element_name i)) v = Inr b"
    by auto
  have "\<forall>j<length cs. \<exists>x y w h v b.
             cv2_boundingRect env (cs ! j) = Inr (x, y, w, h)
             \<and> crop img x y w h = Inr v
             \<and> cv2_imwrite env (os_path_join env output_dir (element_name (Suc i + j))) v = Inr b"
  proof (intro allI impI)
    fix j assume "j < length cs"
    then have "Suc j < length (c # cs)" by simp
    from Cons.prems [rule_format, OF this] show "\<exists>x y w h v b.
             cv2_boundingRect env (cs ! j) = Inr (x, y, w, h)
             \<and> crop img x y w h = Inr v
             \<and> cv2_imwrite env (os_path_join env output_dir (element_name (Suc i + j))) v = Inr b"
      by simp
  qed
  from Cons.IH [OF this] obtain s' where
    ih: "save_loop env img output_dir (Suc i) cs (acc @ [os_path_join env output_dir (element_name i)])
           (if b then s @ [ImWrite (os_path_join env output_dir (element_name i)) v] else s)
         = (Inr ((acc @ [os_path_join env output_dir (element_name i)])
                  @ map (\<lambda>k. os_path_join env output_dir (element_name k)) [Suc i..<Suc i + length cs]), s')"
      "save_loop env img output_dir (Suc i) (cs @ rest) (acc @ [os_path_join env output_dir (element_name i)])
           (if b then s @ [ImWrite (os_path_join env output_dir (element_name i)) v] else s)
         = save_loop env img output_dir (Suc i + length cs) rest
             ((acc @ [os_path_join env output_dir (element_name i)])
                  @ map (\<lambda>k. os_path_join env output_dir (element_name k)) [Suc i..<Suc i + length cs]) s'"
    by blast
  have upt: "[i..<Suc (i + length cs)] = i # [Suc i..<Suc (i + length cs)]"
    by (simp add: upt_conv_Cons del: upt_Suc)
  from c ih show ?case
    by (simp add: Let_def upt del: upt_Suc)
qed

lemma save_try_start:
  assumes "os_path_exists env output_dir \<or> os_makedirs env output_dir = Inr ()"
  shows "save_try env img contours output_dir s
           = save_loop env img output_dir 0 contours []
               (if os_path_exists env output_dir then s else s @ [MakeDirs output_dir])"
  using assms by (auto simp: save_try_def)

text \<open>
  C5. When nothing fails during the call (the directory exists or \<^verbatim>\<open>makedirs\<close>
  returns; for every contour, \<^verbatim>\<open>boundingRect\<close> returns a box and \<^verbatim>\<open>imwrite\<close> returns
  for the path and the crop of that contour) and the image is an array,
  \<^verbatim>\<open>save_visual_elements\<close> returns one path per contour: the i-th path is
  \<^verbatim>\<open>os.path.join(output_dir, 'element_<i>.png')\<close> with i counting the contours from 0
  in input order. For the empty list of contours it returns the empty list.
\<close>

theorem save_visual_elements_paths:
  assumes "os_path_exists env output_dir \<or> os_makedirs env output_dir = Inr ()"
    and "\<forall>i<length contours. \<exists>x y w h v b.
           cv2_boundingRect env (contours ! i) = Inr (x, y, w, h)
           \<and> crop (Some a) x y w h = Inr v
           \<and> cv2_imwrite env (os_path_join env output_dir (''element_'' @ str_nat i @ ''.png'')) v = Inr b"
  shows "fst (save_visual_elements env (Some a) contours output_dir s)
           = Inr (map (\<lambda>i. os_path_join env output_dir (''element_'' @ str_nat i @ ''.png''))
                    [0..<length contours])
         \<and> fst (save_visual_elements env img [] output_dir s) = Inr []"
proof
  from assms(2) have run: "\<forall>j<length contours. \<exists>x y w h v b.
           cv2_boundingRect env (contours ! j) = Inr (x, y, w, h)
           \<and> crop (Some a) x y w h = Inr v
           \<and> cv2_imwrite env (os_path_join env output_dir (element_name (0 + j))) v = Inr b"
    by (simp add: element_name_def)
  from save_loop_append [OF run, where rest = "[]" and acc = "[]"] save_try_start [OF assms(1)]
  obtain s' where "save_try env (Some a) contours output_dir s
      = (Inr (map (\<lambda>k. os_path_join env output_dir (element_name k)) [0..<length contours]), s')"
    by (metis add_0 append_Nil)
  then show "fst (save_visual_elements env (Some a) contours output_dir s)
          = Inr (map (\<lambda>i. os_path_join env output_dir (''element_'' @ str_nat i @ ''.png''))
                   [0..<length contours])"
    by (simp add: save_visual_elements_def element_name_def)
next
  from assms(1) show "fst (save_visual_elements env img [] output_dir s) = Inr []"
    by (auto simp: save_visual_elements_def save_try_def)
qed

theorem save_visual_elements_paths_witness:
  "fst (save_visual_elements env_strict (Some scene_200) [square_2500, square_500] ''output_elements'' [])
     = Inr [''output_elements/element_0.png'', ''output_elements/element_1.png'']
   \<and> fst (save_visual_elements env_strict None [] ''output_elements'' []) = Inr []"
proof -
  have n0: "str_nat 0 = ''0''" and n1: "str_nat (Suc 0) = ''1''"
    by code_simp+
  have h1: "os_path_exists env_strict ''output_elements'' \<or> os_makedirs env_strict ''output_elements'' = Inr ()"
    by (simp add: env_strict_def env_ok_def)
  have h2: "\<forall>i<length [square_2500, square_500]. \<exists>x y w h v b.
           cv2_boundingRect env_strict ([square_2500, square_500] ! i) = Inr (x, y, w, h)
           \<and> crop (Some scene_200) x y w h = Inr v
           \<and> cv2_imwrite env_strict
                (os_path_join env_strict ''output_elements'' (''element_'' @ str_nat i @ ''.png'')) v = Inr b"
  proof (intro allI impI)
    fix i assume "i < length [square_2500, square_500]"
    then consider "i = 0" | "i = Suc 0" by (auto simp: less_Suc_eq)
    then show "\<exists>x y w h v b.
           cv2_boundingRect env_strict ([square_2500, square_500] ! i) = Inr (x, y, w, h)
           \<and> crop (Some scene_200) x y w h = Inr v
           \<and> cv2_imwrite env_strict
                (os_path_join env_strict ''output_elements'' (''element_'' @ str_nat i @ ''.png'')) v = Inr b"
    proof cases
      case 1
      then show ?thesis
        by (auto simp: env_strict_def env_ok_def crop_big)
    next
      case 2
      then show ?thesis
        by (auto simp: env_strict_def env_ok_def crop_small squares_differ)
    qed
  qed
  from save_visual_elements_paths [OF h1 h2, where s = "[]" and img = None]
  show ?thesis
    by (simp add: n0 n1 env_strict_def env_ok_def)
qed

text \<open>
  C9. \<^verbatim>\<open>save_visual_elements\<close> makes the output directory when it is absent, also
  when there is no contour: with an absent directory and a \<^verbatim>\<open>makedirs\<close> that
  succeeds, the call with the empty list returns no path and its one effect is the
  directory; with any list of contours the directory is made before anything else,
  whatever happens to the elements afterwards.
\<close>

theorem save_visual_elements_makedirs:
  assumes "\<not> os_path_exists env output_dir"
    and "os_makedirs env output_dir = Inr ()"
  shows "save_visual_elements env img [] output_dir s = (Inr [], s @ [MakeDirs output_dir])
         \<and> (\<exists>t. snd (save_visual_elements env img contours output_dir s)
                  = s @ MakeDirs output_dir # t)"
proof
  from assms show "save_visual_elements env img [] output_dir s = (Inr [], s @ [MakeDirs output_dir])"
    by (simp add: save_visual_elements_def save_try_def)
next
  from assms have
    tr: "save_try env img contours output_dir s
            = save_loop env img output_dir 0 contours [] (s @ [MakeDirs output_dir])"
    by (simp add: save_try_def)
  obtain t where t: "snd (save_loop env img output_dir 0 contours [] (s @ [MakeDirs output_dir]))
      = (s @ [MakeDirs output_dir]) @ t"
    using save_loop_world by blast
  show "\<exists>t. snd (save_visual_elements env img contours output_dir s) = s @ MakeDirs output_dir # t"
  proof (cases "save_try env img contours output_dir s")
    case (Pair r s')
    from tr t have "snd (save_try env img contours output_dir s) = s @ MakeDirs output_dir # t"
      by simp
    with Pair have s': "s' = s @ MakeDirs output_dir # t" by simp
    show ?thesis
    proof (cases r)
      case (Inr paths)
      with Pair s' show ?thesis by (simp add: save_visual_elements_def)
    next
      case (Inl e)
      with Pair s' show ?thesis by (simp add: save_visual_elements_def)
    qed
  qed
qed

theorem save_visual_elements_makedirs_witness:
  "save_visual_elements env_ok (Some scene_200) [] ''output_elements'' [] = (Inr [], [MakeDirs ''output_elements''])
   \<and> (\<exists>t. snd (save_visual_elements env_ok (Some scene_200) [square_2500, square_500] ''output_elements'' [])
            = [] @ MakeDirs ''output_elements'' # t)"
proof -
  have h1: "\<not> os_path_exists env_ok ''output_elements''"
    by (simp add: env_ok_def)
  have h2: "os_makedirs env_ok ''output_elements'' = Inr ()"
    by (simp add: env_ok_def)
  from save_visual_elements_makedirs [OF h1 h2, where img = "Some scene_200" and s = "[]" and contours = "[square_2500, square_500]"]
  show ?thesis by simp
qed

text \<open>
  C1 as the spec states it: after a failure \<^verbatim>\<open>save_visual_elements\<close> returns the paths
  written before it. It does not. Below, the second \<^verbatim>\<open>imwrite\<close> raises after the first
  element was written: the file \<^verbatim>\<open>element_0.png\<close> is on disk, and the function returns
  the empty list, not the list of that one path.
\<close>

theorem save_visual_elements_partial_counterexample:
  "save_visual_elements env_disk_full (Some scene_200) [square_2500, square_500] ''output_elements'' []
     = (Inr [],
        [MakeDirs ''output_elements'',
         ImWrite ''output_elements/element_0.png'' (replicate 51 (replicate 51 white)),
         StError ''An error occurred while saving visual elements: disk full''])
   \<and> fst (save_visual_elements env_disk_full (Some scene_200) [square_2500, square_500]
            ''output_elements'' [])
       \<noteq> Inr [''output_elements/element_0.png'']"
  by (simp add: save_visual_elements_def save_try_def env_disk_full_def env_ok_def crop_big crop_small
        squares_differ element_name_0 element_name_Suc_0 Let_def)

text \<open>The loop stops at the first contour for which a step raises.\<close>

lemma save_loop_raises:
  assumes "cv2_boundingRect env contour = Inl e
           \<or> (\<exists>x y w h. cv2_boundingRect env contour = Inr (x, y, w, h) \<and> crop img x y w h = Inl e)
           \<or> (\<exists>x y w h v. cv2_boundingRect env contour = Inr (x, y, w, h) \<and> crop img x y w h = Inr v
                 \<and> cv2_imwrite env (os_path_join env output_dir (element_name i)) v = Inl e)"
  shows "save_loop env img output_dir i (contour # post) acc s = (Inl e, s)"
  using assms by (auto simp: Let_def)

lemma save_prefix_ok:
  assumes mk: "os_path_exists env output_dir \<or> os_makedirs env output_dir = Inr ()"
    and run: "\<forall>j<length pre. \<exists>x y w h v b.
           cv2_boundingRect env (pre ! j) = Inr (x, y, w, h)
           \<and> crop img x y w h = Inr v
           \<and> cv2_imwrite env (os_path_join env output_dir (element_name j)) v = Inr b"
    and fail: "cv2_boundingRect env contour = Inl e
           \<or> (\<exists>x y w h. cv2_boundingRect env contour = Inr (x, y, w, h) \<and> crop img x y w h = Inl e)
           \<or> (\<exists>x y w h v. cv2_boundingRect env contour = Inr (x, y, w, h) \<and> crop img x y w h = Inr v
                 \<and> cv2_imwrite env (os_path_join env output_dir (element_name (length pre))) v = Inl e)"
  shows "\<exists>s'. save_try env img pre output_dir s
               = (Inr (map (\<lambda>k. os_path_join env output_dir (element_name k)) [0..<length pre]), s')
             \<and> save_try env img (pre @ contour # post) output_dir s = (Inl e, s')"
proof -
  let ?s0 = "if os_path_exists env output_dir then s else s @ [MakeDirs output_dir]"
  from run have "\<forall>j<length pre. \<exists>x y w h v b.
           cv2_boundingRect env (pre ! j) = Inr (x, y, w, h)
           \<and> crop img x y w h = Inr v
           \<and> cv2_imwrite env (os_path_join env output_dir (element_name (0 + j))) v = Inr b"
    by simp
  from save_loop_append [OF this, where rest = "contour # post" and acc = "[]" and s = ?s0]
  obtain s' where
    a: "save_loop env img output_dir 0 pre [] ?s0
          = (Inr (map (\<lambda>k. os_path_join env output_dir (element_name k)) [0..<length pre]), s')"
    and b: "save_loop env img output_dir 0 (pre @ contour # post) [] ?s0
          = save_loop env img output_dir (length pre) (contour # post)
              (map (\<lambda>k. os_path_join env output_dir (element_name k)) [0..<length pre]) s'"
    by (metis add_0 append_Nil)
  from b save_loop_raises [OF fail] have
    "save_loop env img output_dir 0 (pre @ contour # post) [] ?s0 = (Inl e, s')"
    by simp
  with a show ?thesis
    by (simp only: save_try_start [OF mk]) blast
qed

lemma main_body_no_element:
  assumes "save_visual_elements env img contours ''output_elements'' s = (Inr [], s3)"
    and "extract_text env upload s0 = (Inr t, s1)"
    and "segment_visual_elements env image_path s1 = (Inr (img, contours), s)"
  shows "fst (main_body env upload image_path s0) = Inr (''<html><body><p>'' @ t @ ''</p></body></html>'')"
  using assms by (simp add: main_body_def generate_html_closed)

text \<open>
  C1, amended. Let an exception \<open>e\<close> (an instance of \<^verbatim>\<open>Exception\<close>) be raised during
  \<^verbatim>\<open>save_visual_elements\<close>: either by \<^verbatim>\<open>os.makedirs\<close> for the absent directory, or,
  after the contours \<open>pre\<close> were processed without a failure, for the next contour by
  \<^verbatim>\<open>cv2.boundingRect\<close>, by the subscripting of the image, or by \<^verbatim>\<open>cv2.imwrite\<close>.
  Then the function stops there, reports \<open>e\<close> with \<^verbatim>\<open>st.error\<close> and returns the
  empty list. The paths of the elements \<open>pre\<close> are not returned, though the effects
  made for them stay: the world is the one the call on \<open>pre\<close> alone leaves, plus the
  error message. The report of \<^verbatim>\<open>main\<close> is then built from the text and no element.
\<close>

theorem save_visual_elements_failure:
  assumes "is_Exception e"
  shows
    "(\<not> os_path_exists env output_dir \<and> os_makedirs env output_dir = Inl e
        \<longrightarrow> save_visual_elements env img contours output_dir s
              = (Inr [], s @ [StError (''An error occurred while saving visual elements: '' @ exc_str e)])
            \<and> (\<forall>upload image_path s0 s1 text.
                  output_dir = ''output_elements''
                  \<longrightarrow> extract_text env upload s0 = (Inr text, s1)
                  \<longrightarrow> segment_visual_elements env image_path s1 = (Inr (img, contours), s)
                  \<longrightarrow> fst (main_body env upload image_path s0)
                        = Inr (''<html><body><p>'' @ text @ ''</p></body></html>'')))
     \<and> ((os_path_exists env output_dir \<or> os_makedirs env output_dir = Inr ())
        \<and> contours = pre @ contour # post
        \<and> (\<forall>j<length pre. \<exists>x y w h v b.
               cv2_boundingRect env (pre ! j) = Inr (x, y, w, h)
               \<and> crop img x y w h = Inr v
               \<and> cv2_imwrite env (os_path_join env output_dir (element_name j)) v = Inr b)
        \<and> (cv2_boundingRect env contour = Inl e
           \<or> (\<exists>x y w h. cv2_boundingRect env contour = Inr (x, y, w, h) \<and> crop img x y w h = Inl e)
           \<or> (\<exists>x y w h v. cv2_boundingRect env contour = Inr (x, y, w, h) \<and> crop img x y w h = Inr v
                 \<and> cv2_imwrite env (os_path_join env output_dir (element_name (length pre))) v = Inl e))
        \<longrightarrow> save_visual_elements env img contours output_dir s
              = (Inr [],
                 snd (save_visual_elements env img pre output_dir s)
                   @ [StError (''An error occurred while saving visual elements: '' @ exc_str e)])
            \<and> fst (save_visual_elements env img pre output_dir s)
              = Inr (map (\<lambda>k. os_path_join env output_dir (element_name k)) [0..<length pre])
            \<and> (\<forall>upload image_path s0 s1 text.
                  output_dir = ''output_elements''
                  \<longrightarrow> extract_text env upload s0 = (Inr text, s1)
                  \<longrightarrow> segment_visual_elements env image_path s1 = (Inr (img, contours), s)
                  \<longrightarrow> fst (main_body env upload image_path s0)
                        = Inr (''<html><body><p>'' @ text @ ''</p></body></html>'')))"
proof (intro conjI impI)
  assume "\<not> os_path_exists env output_dir \<and> os_makedirs env output_dir = Inl e"
  with assms show r: "save_visual_elements env img contours output_dir s
      = (Inr [], s @ [StError (''An error occurred while saving visual elements: '' @ exc_str e)])"
    by (simp add: save_visual_elements_def save_try_def)
  show "\<forall>upload image_path s0 s1 text.
          output_dir = ''output_elements''
          \<longrightarrow> extract_text env upload s0 = (Inr text, s1)
          \<longrightarrow> segment_visual_elements env image_path s1 = (Inr (img, contours), s)
          \<longrightarrow> fst (main_body env upload image_path s0)
                = Inr (''<html><body><p>'' @ text @ ''</p></body></html>'')"
  proof (intro allI impI)
    fix upload image_path s0 s1 t
    assume dir: "output_dir = ''output_elements''"
      and ex: "extract_text env upload s0 = (Inr t, s1)"
      and seg: "segment_visual_elements env image_path s1 = (Inr (img, contours), s)"
    from r dir obtain s3 where "save_visual_elements env img contours ''output_elements'' s = (Inr [], s3)"
      by simp
    from main_body_no_element [OF this ex seg]
    show "fst (main_body env upload image_path s0) = Inr (''<html><body><p>'' @ t @ ''</p></body></html>'')" .
  qed
next
  assume h: "(os_path_exists env output_dir \<or> os_makedirs env output_dir = Inr ())
        \<and> contours = pre @ contour # post
        \<and> (\<forall>j<length pre. \<exists>x y w h v b.
               cv2_boundingRect env (pre ! j) = Inr (x, y, w, h)
               \<and> crop img x y w h = Inr v
               \<and> cv2_imwrite env (os_path_join env output_dir (element_name j)) v = Inr b)
        \<and> (cv2_boundingRect env contour = Inl e
           \<or> (\<exists>x y w h. cv2_boundingRect env contour = Inr (x, y, w, h) \<and> crop img x y w h = Inl e)
           \<or> (\<exists>x y w h v. cv2_boundingRect env contour = Inr (x, y, w, h) \<and> crop img x y w h = Inr v
                 \<and> cv2_imwrite env (os_path_join env output_dir (element_name (length pre))) v = Inl e))"
  then have mk: "os_path_exists env output_dir \<or> os_makedirs env output_dir = Inr ()"
    and cs: "contours = pre @ contour # post"
    and run: "\<forall>j<length pre. \<exists>x y w h v b.
               cv2_boundingRect env (pre ! j) = Inr (x, y, w, h)
               \<and> crop img x y w h = Inr v
               \<and> cv2_imwrite env (os_path_join env output_dir (element_name j)) v = Inr b"
    and fail: "cv2_boundingRect env contour = Inl e
           \<or> (\<exists>x y w h. cv2_boundingRect env contour = Inr (x, y, w, h) \<and> crop img x y w h = Inl e)
           \<or> (\<exists>x y w h v. cv2_boundingRect env contour = Inr (x, y, w, h) \<and> crop img x y w h = Inr v
                 \<and> cv2_imwrite env (os_path_join env output_dir (element_name (length pre))) v = Inl e)"
    by blast+
  from save_prefix_ok [OF mk run fail, where post = post and s = s] obtain s' where
    a: "save_try env img pre output_dir s
          = (Inr (map (\<lambda>k. os_path_join env output_dir (element_name k)) [0..<length pre]), s')"
    and b: "save_try env img (pre @ contour # post) output_dir s = (Inl e, s')"
    by blast
  from a b cs assms show r: "save_visual_elements env img contours output_dir s
      = (Inr [],
         snd (save_visual_elements env img pre output_dir s)
           @ [StError (''An error occurred while saving visual elements: '' @ exc_str e)])"
    by (simp add: save_visual_elements_def)
  from a show "fst (save_visual_elements env img pre output_dir s)
      = Inr (map (\<lambda>k. os_path_join env output_dir (element_name k)) [0..<length pre])"
    by (simp add: save_visual_elements_def)
  show "\<forall>upload image_path s0 s1 text.
          output_dir = ''output_elements''
          \<longrightarrow> extract_text env upload s0 = (Inr text, s1)
          \<longrightarrow> segment_visual_elements env image_path s1 = (Inr (img, contours), s)
          \<longrightarrow> fst (main_body env upload image_path s0)
                = Inr (''<html><body><p>'' @ text @ ''</p></body></html>'')"
  proof (intro allI impI)
    fix upload image_path s0 s1 t
    assume dir: "output_dir = ''output_elements''"
      and ex: "extract_text env upload s0 = (Inr t, s1)"
      and seg: "segment_visual_elements env image_path s1 = (Inr (img, contours), s)"
    from r dir obtain s3 where "save_visual_elements env img contours ''output_elements'' s = (Inr [], s3)"
      by simp
    from main_body_no_element [OF this ex seg]
    show "fst (main_body env upload image_path s0) = Inr (''<html><body><p>'' @ t @ ''</p></body></html>'')" .
  qed
qed

lemma extract_ok: "extract_text env_disk_full scene_200 [] = (Inr ''INVOICE'', [])"
  by (simp add: extract_text_def env_disk_full_def env_ok_def)

lemma segment_ok:
  "segment_visual_elements env_disk_full ''temp_scan.png'' []
     = (Inr (Some scene_200, [square_2500, square_500]), [])"
  by (simp add: segment_visual_elements_def segment_try_def env_disk_full_def env_ok_def)

lemma first_element_disk_full:
  "save_visual_elements env_disk_full (Some scene_200) [square_2500] ''output_elements'' []
     = (Inr [''output_elements/element_0.png''],
        [MakeDirs ''output_elements'',
         ImWrite ''output_elements/element_0.png'' (replicate 51 (replicate 51 white))])"
  by (simp add: save_visual_elements_def save_try_def env_disk_full_def env_ok_def crop_big
        element_name_0 Let_def)

lemma first_element_bad_contour:
  "save_visual_elements env_bad_contour (Some scene_200) [square_2500] ''output_elements'' []
     = (Inr [''output_elements/element_0.png''],
        [MakeDirs ''output_elements'',
         ImWrite ''output_elements/element_0.png'' (replicate 51 (replicate 51 white))])"
  by (simp add: save_visual_elements_def save_try_def env_bad_contour_def env_ok_def crop_big
        element_name_0 Let_def)

lemma no_element_ok:
  "save_visual_elements env_ok None [] ''output_elements'' [] = (Inr [], [MakeDirs ''output_elements''])"
  by (simp add: save_visual_elements_def save_try_def env_ok_def)

theorem save_visual_elements_failure_witness:
  "save_visual_elements env_no_permission (Some scene_200) [square_2500, square_500] ''output_elements'' []
     = (Inr [], [StError ''An error occurred while saving visual elements: [Errno 13] Permission denied''])
   \<and> save_visual_elements env_bad_contour (Some scene_200) [square_2500, square_500] ''output_elements'' []
     = (Inr [],
        [MakeDirs ''output_elements'',
         ImWrite ''output_elements/element_0.png'' (replicate 51 (replicate 51 white)),
         StError ''An error occurred while saving visual elements: cv2.error: npoints >= 0''])
   \<and> save_visual_elements env_ok None [square_2500] ''output_elements'' []
     = (Inr [],
        [MakeDirs ''output_elements'',
         StError (''An error occurred while saving visual elements: '' @ not_subscriptable)])
   \<and> save_visual_elements env_disk_full (Some scene_200) [square_2500, square_500] ''output_elements'' []
     = (Inr [],
        [MakeDirs ''output_elements'',
         ImWrite ''output_elements/element_0.png'' (replicate 51 (replicate 51 white)),
         StError ''An error occurred while saving visual elements: disk full''])
   \<and> fst (main_body env_disk_full scene_200 ''temp_scan.png'' [])
     = Inr ''<html><body><p>INVOICE</p></body></html>''"
proof -
  have caught: "is_Exception (Exception m)" for m by simp
  \<comment> \<open>\<^verbatim>\<open>os.makedirs\<close> raises\<close>
  have mk: "\<not> os_path_exists env_no_permission ''output_elements''
      \<and> os_makedirs env_no_permission ''output_elements'' = Inl (Exception ''[Errno 13] Permission denied'')"
    by (simp add: env_no_permission_def env_ok_def)
  from save_visual_elements_failure [OF caught, THEN conjunct1, rule_format, OF mk, THEN conjunct1]
  have w1: "save_visual_elements env_no_permission (Some scene_200) [square_2500, square_500]
      ''output_elements'' []
     = (Inr [], [StError ''An error occurred while saving visual elements: [Errno 13] Permission denied''])"
    by simp
  \<comment> \<open>\<^verbatim>\<open>cv2.boundingRect\<close> raises on the second contour\<close>
  have br: "(os_path_exists env_bad_contour ''output_elements''
               \<or> os_makedirs env_bad_contour ''output_elements'' = Inr ())
        \<and> [square_2500, square_500] = [square_2500] @ square_500 # []
        \<and> (\<forall>j<length [square_2500]. \<exists>x y w h v b.
               cv2_boundingRect env_bad_contour ([square_2500] ! j) = Inr (x, y, w, h)
               \<and> crop (Some scene_200) x y w h = Inr v
               \<and> cv2_imwrite env_bad_contour (os_path_join env_bad_contour ''output_elements'' (element_name j)) v
                   = Inr b)
        \<and> (cv2_boundingRect env_bad_contour square_500 = Inl (Exception ''cv2.error: npoints >= 0'')
           \<or> (\<exists>x y w h. cv2_boundingRect env_bad_contour square_500 = Inr (x, y, w, h)
                 \<and> crop (Some scene_200) x y w h = Inl (Exception ''cv2.error: npoints >= 0''))
           \<or> (\<exists>x y w h v. cv2_boundingRect env_bad_contour square_500 = Inr (x, y, w, h)
                 \<and> crop (Some scene_200) x y w h = Inr v
                 \<and> cv2_imwrite env_bad_contour
                      (os_path_join env_bad_contour ''output_elements'' (element_name (length [square_2500]))) v
                    = Inl (Exception ''cv2.error: npoints >= 0'')))"
    by (auto simp: env_bad_contour_def env_ok_def crop_big squares_differ)
  from save_visual_elements_failure [OF caught, THEN conjunct2, rule_format, OF br, THEN conjunct1]
  have w2: "save_visual_elements env_bad_contour (Some scene_200) [square_2500, square_500]
      ''output_elements'' []
     = (Inr [],
        [MakeDirs ''output_elements'',
         ImWrite ''output_elements/element_0.png'' (replicate 51 (replicate 51 white)),
         StError ''An error occurred while saving visual elements: cv2.error: npoints >= 0''])"
    by (simp add: first_element_bad_contour)
  \<comment> \<open>the image is \<^verbatim>\<open>None\<close>\<close>
  have cr: "(os_path_exists env_ok ''output_elements'' \<or> os_makedirs env_ok ''output_elements'' = Inr ())
        \<and> [square_2500] = [] @ square_2500 # []
        \<and> (\<forall>j<length ([]::contour list). \<exists>x y w h v b.
               cv2_boundingRect env_ok ([] ! j) = Inr (x, y, w, h)
               \<and> crop None x y w h = Inr v
               \<and> cv2_imwrite env_ok (os_path_join env_ok ''output_elements'' (element_name j)) v = Inr b)
        \<and> (cv2_boundingRect env_ok square_2500 = Inl (Exception not_subscriptable)
           \<or> (\<exists>x y w h. cv2_boundingRect env_ok square_2500 = Inr (x, y, w, h)
                 \<and> crop None x y w h = Inl (Exception not_subscriptable))
           \<or> (\<exists>x y w h v. cv2_boundingRect env_ok square_2500 = Inr (x, y, w, h)
                 \<and> crop None x y w h = Inr v
                 \<and> cv2_imwrite env_ok
                      (os_path_join env_ok ''output_elements'' (element_name (length ([]::contour list)))) v
                    = Inl (Exception not_subscriptable)))"
    by (auto simp: env_ok_def crop_def)
  from save_visual_elements_failure [OF caught, THEN conjunct2, rule_format, OF cr, THEN conjunct1]
  have w3: "save_visual_elements env_ok None [square_2500] ''output_elements'' []
     = (Inr [],
        [MakeDirs ''output_elements'',
         StError (''An error occurred while saving visual elements: '' @ not_subscriptable)])"
    by (simp add: no_element_ok)
  \<comment> \<open>\<^verbatim>\<open>cv2.imwrite\<close> raises on the second element\<close>
  have wr: "(os_path_exists env_disk_full ''output_elements''
               \<or> os_makedirs env_disk_full ''output_elements'' = Inr ())
        \<and> [square_2500, square_500] = [square_2500] @ square_500 # []
        \<and> (\<forall>j<length [square_2500]. \<exists>x y w h v b.
               cv2_boundingRect env_disk_full ([square_2500] ! j) = Inr (x, y, w, h)
               \<and> crop (Some scene_200) x y w h = Inr v
               \<and> cv2_imwrite env_disk_full (os_path_join env_disk_full ''output_elements'' (element_name j)) v
                   = Inr b)
        \<and> (cv2_boundingRect env_disk_full square_500 = Inl (Exception ''disk full'')
           \<or> (\<exists>x y w h. cv2_boundingRect env_disk_full square_500 = Inr (x, y, w, h)
                 \<and> crop (Some scene_200) x y w h = Inl (Exception ''disk full''))
           \<or> (\<exists>x y w h v. cv2_boundingRect env_disk_full square_500 = Inr (x, y, w, h)
                 \<and> crop (Some scene_200) x y w h = Inr v
                 \<and> cv2_imwrite env_disk_full
                      (os_path_join env_disk_full ''output_elements'' (element_name (length [square_2500]))) v
                    = Inl (Exception ''disk full'')))"
    by (auto simp: env_disk_full_def env_ok_def crop_big crop_small squares_differ
          element_name_0 element_name_Suc_0)
  note r = save_visual_elements_failure [OF caught, THEN conjunct2, rule_format, OF wr]
  from r have w4: "save_visual_elements env_disk_full (Some scene_200) [square_2500, square_500]
      ''output_elements'' []
     = (Inr [],
        [MakeDirs ''output_elements'',
         ImWrite ''output_elements/element_0.png'' (replicate 51 (replicate 51 white)),
         StError ''An error occurred while saving visual elements: disk full''])"
    by (simp add: first_element_disk_full)
  from r extract_ok segment_ok
  have w5: "fst (main_body env_disk_full scene_200 ''temp_scan.png'' [])
     = Inr (''<html><body><p>'' @ ''INVOICE'' @ ''</p></body></html>'')"
    by blast
  from w1 w2 w3 w4 w5 show ?thesis by simp
qed

section \<open>Segmentation\<close>

text \<open>The filter loop keeps, in order, the contours whose reported area exceeds 1000.\<close>

lemma filter_loop_filter:
  assumes "\<forall>c \<in> set contours. cv2_contourArea env c = Inr (area c)"
  shows "filter_loop env contours acc = Inr (acc @ filter (\<lambda>c. 1000 < area c) contours)"
  using assms by (induction contours arbitrary: acc) simp_all

text \<open>
  C2. When the library calls of \<^verbatim>\<open>segment_visual_elements\<close> succeed, a contour found by
  \<^verbatim>\<open>cv2.findContours\<close> is in the returned list exactly when the area
  \<^verbatim>\<open>cv2.contourArea\<close> reports for it is strictly greater than 1000; the returned list
  is the found list filtered, in order. In particular, with two contours found, of areas
  2500 and 500, the returned list holds the first one only.
\<close>

theorem segment_visual_elements_area_filter:
  assumes "cv2_imread env image_path = Inr img"
    and "cv2_cvtColor env img COLOR_BGR2GRAY = Inr gray"
    and "cv2_threshold env gray 128 255 (THRESH_BINARY_INV + THRESH_OTSU) = Inr (level, binary)"
    and "cv2_findContours env binary RETR_EXTERNAL CHAIN_APPROX_SIMPLE = Inr (contours, hier)"
    and "\<forall>c \<in> set contours. cv2_contourArea env c = Inr (area c)"
  shows "\<exists>kept. segment_visual_elements env image_path s = (Inr (img, kept), s)
           \<and> kept = filter (\<lambda>c. 1000 < area c) contours
           \<and> (\<forall>c. c \<in> set kept \<longleftrightarrow> c \<in> set contours \<and> 1000 < area c)
           \<and> (\<forall>c1 c2. (contours = [c1, c2] \<or> contours = [c2, c1])
                  \<and> area c1 = 2500 \<and> area c2 = 500 \<longrightarrow> kept = [c1])"
proof -
  from assms have "segment_visual_elements env image_path s
      = (Inr (img, filter (\<lambda>c. 1000 < area c) contours), s)"
    by (simp add: segment_visual_elements_def segment_try_def filter_loop_filter [where area = area])
  then show ?thesis by auto
qed

theorem segment_visual_elements_area_filter_witness:
  "segment_visual_elements env_ok ''temp_scan.png'' [] = (Inr (Some scene_200, [square_2500]), [])"
proof -
  have h1: "cv2_imread env_ok ''temp_scan.png'' = Inr (Some scene_200)"
    by (simp add: env_ok_def)
  have h2: "cv2_cvtColor env_ok (Some scene_200) COLOR_BGR2GRAY = Inr (replicate 200 (replicate 200 255))"
    by (simp add: env_ok_def)
  have h3: "cv2_threshold env_ok (replicate 200 (replicate 200 255)) 128 255
              (THRESH_BINARY_INV + THRESH_OTSU) = Inr (128, replicate 200 (replicate 200 255))"
    by (simp add: env_ok_def)
  have h4: "cv2_findContours env_ok (replicate 200 (replicate 200 255)) RETR_EXTERNAL CHAIN_APPROX_SIMPLE
              = Inr ([square_2500, square_500], [])"
    by (simp add: env_ok_def)
  have h5: "\<forall>c \<in> set [square_2500, square_500].
              cv2_contourArea env_ok c = Inr (if c = square_2500 then 2500 else 500)"
    by (simp add: env_ok_def)
  from segment_visual_elements_area_filter [OF h1 h2 h3 h4 h5, of "[]"]
  obtain kept where
    r: "segment_visual_elements env_ok ''temp_scan.png'' [] = (Inr (Some scene_200, kept), [])"
    and k: "\<forall>c1 c2. ([square_2500, square_500] = [c1, c2] \<or> [square_2500, square_500] = [c2, c1])
                  \<and> (if c1 = square_2500 then 2500 else 500) = (2500::real)
                  \<and> (if c2 = square_2500 then 2500 else 500) = (500::real) \<longrightarrow> kept = [c1]"
    by blast
  from k have "kept = [square_2500]"
    using squares_differ by auto
  with r show ?thesis by simp
qed


section \<open>Failures of the first two stages\<close>

lemma generate_html_no_element:
  "generate_html t [] = ''<html><body><p>'' @ t @ ''</p></body></html>''"
  by (simp add: generate_html_closed)

lemma save_nothing:
  assumes "\<forall>m. os_makedirs env output_dir \<noteq> Inl (BaseException m)"
  shows "fst (save_visual_elements env img [] output_dir s) = Inr []"
proof (cases "os_path_exists env output_dir")
  case True
  then show ?thesis by (simp add: save_visual_elements_def save_try_def)
next
  case False
  show ?thesis
  proof (cases "os_makedirs env output_dir")
    case (Inr u)
    with False show ?thesis by (simp add: save_visual_elements_def save_try_def)
  next
    case (Inl e)
    with assms have "is_Exception e" by (cases e) auto
    with False Inl show ?thesis by (simp add: save_visual_elements_def save_try_def)
  qed
qed

text \<open>The filter loop stops at the first contour whose area cannot be computed.\<close>

lemma filter_loop_raises:
  assumes "\<forall>c \<in> set pre. \<exists>area. cv2_contourArea env c = Inr area"
    and "cv2_contourArea env contour = Inl e"
  shows "filter_loop env (pre @ contour # post) acc = Inl e"
  using assms
proof (induction pre arbitrary: acc)
  case Nil
  then show ?case by simp
next
  case (Cons c cs)
  from Cons.prems obtain area where "cv2_contourArea env c = Inr area" by auto
  moreover from Cons.prems have "\<forall>c \<in> set cs. \<exists>area. cv2_contourArea env c = Inr area" by simp
  ultimately show ?case using Cons.IH Cons.prems(2) by simp
qed

text \<open>
  C4. When an exception \<open>e\<close> (an instance of \<^verbatim>\<open>Exception\<close>) is raised during
  \<^verbatim>\<open>segment_visual_elements\<close>, by \<^verbatim>\<open>cv2.imread\<close>, by \<^verbatim>\<open>cv2.cvtColor\<close> (as on the
  \<^verbatim>\<open>None\<close> that \<^verbatim>\<open>imread\<close> returns for an unreadable file), by \<^verbatim>\<open>cv2.threshold\<close>, by
  \<^verbatim>\<open>cv2.findContours\<close>, or by \<^verbatim>\<open>cv2.contourArea\<close> for some contour after the areas
  of the contours before it were computed, the function reports \<open>e\<close> and returns
  \<^verbatim>\<open>(None, [])\<close>. \<^verbatim>\<open>main\<close> goes on with no element: it does not abort, and its
  report holds the text and no image (\<^verbatim>\<open>save_visual_elements\<close> is still called, with
  \<^verbatim>\<open>None\<close> and the empty list; only a \<^verbatim>\<open>BaseException\<close> out of \<^verbatim>\<open>os.makedirs\<close>
  could stop it).
\<close>

theorem segment_visual_elements_failure:
  assumes "is_Exception e"
    and "cv2_imread env image_path = Inl e
         \<or> (\<exists>img. cv2_imread env image_path = Inr img
                \<and> cv2_cvtColor env img COLOR_BGR2GRAY = Inl e)
         \<or> (\<exists>img gray. cv2_imread env image_path = Inr img
                \<and> cv2_cvtColor env img COLOR_BGR2GRAY = Inr gray
                \<and> cv2_threshold env gray 128 255 (THRESH_BINARY_INV + THRESH_OTSU) = Inl e)
         \<or> (\<exists>img gray level binary. cv2_imread env image_path = Inr img
                \<and> cv2_cvtColor env img COLOR_BGR2GRAY = Inr gray
                \<and> cv2_threshold env gray 128 255 (THRESH_BINARY_INV + THRESH_OTSU) = Inr (level, binary)
                \<and> cv2_findContours env binary RETR_EXTERNAL CHAIN_APPROX_SIMPLE = Inl e)
         \<or> (\<exists>img gray level binary pre contour post hier. cv2_imread env image_path = Inr img
                \<and> cv2_cvtColor env img COLOR_BGR2GRAY = Inr gray
                \<and> cv2_threshold env gray 128 255 (THRESH_BINARY_INV + THRESH_OTSU) = Inr (level, binary)
                \<and> cv2_findContours env binary RETR_EXTERNAL CHAIN_APPROX_SIMPLE
                    = Inr (pre @ contour # post, hier)
                \<and> (\<forall>c \<in> set pre. \<exists>area. cv2_contourArea env c = Inr area)
                \<and> cv2_contourArea env contour = Inl e)"
  shows "segment_visual_elements env image_path s
           = (Inr (None, []),
              s @ [StError (''An error occurred while segmenting visual elements: '' @ exc_str e)])
         \<and> (\<forall>upload s0 t.
               extract_text env upload s0 = (Inr t, s)
               \<longrightarrow> (\<forall>m. os_makedirs env ''output_elements'' \<noteq> Inl (BaseException m))
               \<longrightarrow> fst (main_body env upload image_path s0)
                     = Inr (''<html><body><p>'' @ t @ ''</p></body></html>''))"
proof (intro conjI allI impI)
  from assms(2) have raised: "segment_try env image_path = Inl e"
  proof (elim disjE exE conjE)
    assume "cv2_imread env image_path = Inl e"
    then show ?thesis by (simp add: segment_try_def)
  next
    fix img
    assume "cv2_imread env image_path = Inr img" "cv2_cvtColor env img COLOR_BGR2GRAY = Inl e"
    then show ?thesis by (simp add: segment_try_def)
  next
    fix img gray
    assume "cv2_imread env image_path = Inr img" "cv2_cvtColor env img COLOR_BGR2GRAY = Inr gray"
      "cv2_threshold env gray 128 255 (THRESH_BINARY_INV + THRESH_OTSU) = Inl e"
    then show ?thesis by (simp add: segment_try_def)
  next
    fix img gray level binary
    assume "cv2_imread env image_path = Inr img" "cv2_cvtColor env img COLOR_BGR2GRAY = Inr gray"
      "cv2_threshold env gray 128 255 (THRESH_BINARY_INV + THRESH_OTSU) = Inr (level, binary)"
      "cv2_findContours env binary RETR_EXTERNAL CHAIN_APPROX_SIMPLE = Inl e"
    then show ?thesis by (simp add: segment_try_def)
  next
    fix img gray level binary pre contour post hier
    assume "cv2_imread env image_path = Inr img" "cv2_cvtColor env img COLOR_BGR2GRAY = Inr gray"
      "cv2_threshold env gray 128 255 (THRESH_BINARY_INV + THRESH_OTSU) = Inr (level, binary)"
      "cv2_findContours env binary RETR_EXTERNAL CHAIN_APPROX_SIMPLE = Inr (pre @ contour # post, hier)"
      and pre: "\<forall>c \<in> set pre. \<exists>area. cv2_contourArea env c = Inr area"
      and c: "cv2_contourArea env contour = Inl e"
    then show ?thesis
      by (simp add: segment_try_def filter_loop_raises [OF pre c])
  qed
  with assms(1) show seg: "segment_visual_elements env image_path s
       = (Inr (None, []),
          s @ [StError (''An error occurred while segmenting visual elements: '' @ exc_str e)])"
    by (simp add: segment_visual_elements_def)
  fix upload s0 t
  assume ex: "extract_text env upload s0 = (Inr t, s)"
    and mk: "\<forall>m. os_makedirs env ''output_elements'' \<noteq> Inl (BaseException m)"
  define s2 where "s2 = s @ [StError (''An error occurred while segmenting visual elements: '' @ exc_str e)]"
  obtain r s3 where sv: "save_visual_elements env None [] ''output_elements'' s2 = (r, s3)"
    by (cases "save_visual_elements env None [] ''output_elements'' s2")
  with save_nothing [OF mk, of None s2] have r: "r = Inr []" by simp
  from ex seg sv r show "fst (main_body env upload image_path s0)
      = Inr (''<html><body><p>'' @ t @ ''</p></body></html>'')"
    by (simp add: main_body_def s2_def generate_html_no_element)
qed


theorem segment_visual_elements_failure_witness:
  "segment_visual_elements env_imread_raises ''temp_scan.png'' []
     = (Inr (None, []), [StError ''An error occurred while segmenting visual elements: cv2.error: bad allocation''])
   \<and> segment_visual_elements env_unreadable ''temp_scan.png'' []
     = (Inr (None, []), [StError ''An error occurred while segmenting visual elements: cv2.error: !_src.empty()''])
   \<and> segment_visual_elements env_threshold_raises ''temp_scan.png'' []
     = (Inr (None, []), [StError ''An error occurred while segmenting visual elements: cv2.error: src.type() == CV_8UC1''])
   \<and> segment_visual_elements env_findContours_raises ''temp_scan.png'' []
     = (Inr (None, []), [StError ''An error occurred while segmenting visual elements: cv2.error: unsupported format''])
   \<and> segment_visual_elements env_area_raises ''temp_scan.png'' []
     = (Inr (None, []), [StError ''An error occurred while segmenting visual elements: cv2.error: npoints >= 0''])
   \<and> fst (main_body env_unreadable scene_200 ''temp_scan.png'' [])
     = Inr ''<html><body><p>INVOICE</p></body></html>''
   \<and> fst (main_body env_area_raises scene_200 ''temp_scan.png'' [])
     = Inr ''<html><body><p>INVOICE</p></body></html>''"
proof -
  have caught: "is_Exception (Exception m)" for m by simp
  have imread: "cv2_imread env_imread_raises ''temp_scan.png'' = Inl (Exception ''cv2.error: bad allocation'')"
    by (simp add: env_imread_raises_def env_ok_def)
  then have imread_h: "cv2_imread env_imread_raises ''temp_scan.png'' = Inl (Exception ''cv2.error: bad allocation'')
         \<or> (\<exists>img. cv2_imread env_imread_raises ''temp_scan.png'' = Inr img
                \<and> cv2_cvtColor env_imread_raises img COLOR_BGR2GRAY = Inl (Exception ''cv2.error: bad allocation''))
         \<or> (\<exists>img gray. cv2_imread env_imread_raises ''temp_scan.png'' = Inr img
                \<and> cv2_cvtColor env_imread_raises img COLOR_BGR2GRAY = Inr gray
                \<and> cv2_threshold env_imread_raises gray 128 255 (THRESH_BINARY_INV + THRESH_OTSU) = Inl (Exception ''cv2.error: bad allocation''))
         \<or> (\<exists>img gray level binary. cv2_imread env_imread_raises ''temp_scan.png'' = Inr img
                \<and> cv2_cvtColor env_imread_raises img COLOR_BGR2GRAY = Inr gray
                \<and> cv2_threshold env_imread_raises gray 128 255 (THRESH_BINARY_INV + THRESH_OTSU) = Inr (level, binary)
                \<and> cv2_findContours env_imread_raises binary RETR_EXTERNAL CHAIN_APPROX_SIMPLE = Inl (Exception ''cv2.error: bad allocation''))
         \<or> (\<exists>img gray level binary pre contour post hier. cv2_imread env_imread_raises ''temp_scan.png'' = Inr img
                \<and> cv2_cvtColor env_imread_raises img COLOR_BGR2GRAY = Inr gray
                \<and> cv2_threshold env_imread_raises gray 128 255 (THRESH_BINARY_INV + THRESH_OTSU) = Inr (level, binary)
                \<and> cv2_findContours env_imread_raises binary RETR_EXTERNAL CHAIN_APPROX_SIMPLE
                    = Inr (pre @ contour # post, hier)
                \<and> (\<forall>c \<in> set pre. \<exists>area. cv2_contourArea env_imread_raises c = Inr area)
                \<and> cv2_contourArea env_imread_raises contour = Inl (Exception ''cv2.error: bad allocation''))"
    by blast
  from segment_visual_elements_failure [OF caught imread_h, of "[]", THEN conjunct1]
  have imread_w: "segment_visual_elements env_imread_raises ''temp_scan.png'' []
     = (Inr (None, []), [StError ''An error occurred while segmenting visual elements: cv2.error: bad allocation''])"
    by simp
  have cvt: "cv2_imread env_unreadable ''temp_scan.png'' = Inr None
        \<and> cv2_cvtColor env_unreadable None COLOR_BGR2GRAY = Inl (Exception ''cv2.error: !_src.empty()'')"
    by (simp add: env_unreadable_def env_ok_def)
  then have cvt_h: "cv2_imread env_unreadable ''temp_scan.png'' = Inl (Exception ''cv2.error: !_src.empty()'')
         \<or> (\<exists>img. cv2_imread env_unreadable ''temp_scan.png'' = Inr img
                \<and> cv2_cvtColor env_unreadable img COLOR_BGR2GRAY = Inl (Exception ''cv2.error: !_src.empty()''))
         \<or> (\<exists>img gray. cv2_imread env_unreadable ''temp_scan.png'' = Inr img
                \<and> cv2_cvtColor env_unreadable img COLOR_BGR2GRAY = Inr gray
                \<and> cv2_threshold env_unreadable gray 128 255 (THRESH_BINARY_INV + THRESH_OTSU) = Inl (Exception ''cv2.error: !_src.empty()''))
         \<or> (\<exists>img gray level binary. cv2_imread env_unreadable ''temp_scan.png'' = Inr img
                \<and> cv2_cvtColor env_unreadable img COLOR_BGR2GRAY = Inr gray
                \<and> cv2_threshold env_unreadable gray 128 255 (THRESH_BINARY_INV + THRESH_OTSU) = Inr (level, binary)
                \<and> cv2_findContours env_unreadable binary RETR_EXTERNAL CHAIN_APPROX_SIMPLE = Inl (Exception ''cv2.error: !_src.empty()''))
         \<or> (\<exists>img gray level binary pre contour post hier. cv2_imread env_unreadable ''temp_scan.png'' = Inr img
                \<and> cv2_cvtColor env_unreadable img COLOR_BGR2GRAY = Inr gray
                \<and> cv2_threshold env_unreadable gray 128 255 (THRESH_BINARY_INV + THRESH_OTSU) = Inr (level, binary)
                \<and> cv2_findContours env_unreadable binary RETR_EXTERNAL CHAIN_APPROX_SIMPLE
                    = Inr (pre @ contour # post, hier)
                \<and> (\<forall>c \<in> set pre. \<exists>area. cv2_contourArea env_unreadable c = Inr area)
                \<and> cv2_contourArea env_unreadable contour = Inl (Exception ''cv2.error: !_src.empty()''))"
    by blast
  from segment_visual_elements_failure [OF caught cvt_h, of "[]", THEN conjunct1]
  have cvt_w: "segment_visual_elements env_unreadable ''temp_scan.png'' []
     = (Inr (None, []), [StError ''An error occurred while segmenting visual elements: cv2.error: !_src.empty()''])"
    by simp
  have thr: "cv2_imread env_threshold_raises ''temp_scan.png'' = Inr (Some scene_200)
        \<and> cv2_cvtColor env_threshold_raises (Some scene_200) COLOR_BGR2GRAY = Inr (replicate 200 (replicate 200 255))
        \<and> cv2_threshold env_threshold_raises (replicate 200 (replicate 200 255)) 128 255
              (THRESH_BINARY_INV + THRESH_OTSU) = Inl (Exception ''cv2.error: src.type() == CV_8UC1'')"
    by (simp add: env_threshold_raises_def env_ok_def)
  then have thr_h: "cv2_imread env_threshold_raises ''temp_scan.png'' = Inl (Exception ''cv2.error: src.type() == CV_8UC1'')
         \<or> (\<exists>img. cv2_imread env_threshold_raises ''temp_scan.png'' = Inr img
                \<and> cv2_cvtColor env_threshold_raises img COLOR_BGR2GRAY = Inl (Exception ''cv2.error: src.type() == CV_8UC1''))
         \<or> (\<exists>img gray. cv2_imread env_threshold_raises ''temp_scan.png'' = Inr img
                \<and> cv2_cvtColor env_threshold_raises img COLOR_BGR2GRAY = Inr gray
                \<and> cv2_threshold env_threshold_raises gray 128 255 (THRESH_BINARY_INV + THRESH_OTSU) = Inl (Exception ''cv2.error: src.type() == CV_8UC1''))
         \<or> (\<exists>img gray level binary. cv2_imread env_threshold_raises ''temp_scan.png'' = Inr img
                \<and> cv2_cvtColor env_threshold_raises img COLOR_BGR2GRAY = Inr gray
                \<and> cv2_threshold env_threshold_raises gray 128 255 (THRESH_BINARY_INV + THRESH_OTSU) = Inr (level, binary)
                \<and> cv2_findContours env_threshold_raises binary RETR_EXTERNAL CHAIN_APPROX_SIMPLE = Inl (Exception ''cv2.error: src.type() == CV_8UC1''))
         \<or> (\<exists>img gray level binary pre contour post hier. cv2_imread env_threshold_raises ''temp_scan.png'' = Inr img
                \<and> cv2_cvtColor env_threshold_raises img COLOR_BGR2GRAY = Inr gray
                \<and> cv2_threshold env_threshold_raises gray 128 255 (THRESH_BINARY_INV + THRESH_OTSU) = Inr (level, binary)
                \<and> cv2_findContours env_threshold_raises binary RETR_EXTERNAL CHAIN_APPROX_SIMPLE
                    = Inr (pre @ contour # post, hier)
                \<and> (\<forall>c \<in> set pre. \<exists>area. cv2_contourArea env_threshold_raises c = Inr area)
                \<and> cv2_contourArea env_threshold_raises contour = Inl (Exception ''cv2.error: src.type() == CV_8UC1''))"
    by blast
  from segment_visual_elements_failure [OF caught thr_h, of "[]", THEN conjunct1]
  have thr_w: "segment_visual_elements env_threshold_raises ''temp_scan.png'' []
     = (Inr (None, []), [StError ''An error occurred while segmenting visual elements: cv2.error: src.type() == CV_8UC1''])"
    by simp
  have fc: "cv2_imread env_findContours_raises ''temp_scan.png'' = Inr (Some scene_200)
        \<and> cv2_cvtColor env_findContours_raises (Some scene_200) COLOR_BGR2GRAY = Inr (replicate 200 (replicate 200 255))
        \<and> cv2_threshold env_findContours_raises (replicate 200 (replicate 200 255)) 128 255
              (THRESH_BINARY_INV + THRESH_OTSU) = Inr (128, replicate 200 (replicate 200 255))
        \<and> cv2_findContours env_findContours_raises (replicate 200 (replicate 200 255))
              RETR_EXTERNAL CHAIN_APPROX_SIMPLE = Inl (Exception ''cv2.error: unsupported format'')"
    by (simp add: env_findContours_raises_def env_ok_def)
  then have fc_h: "cv2_imread env_findContours_raises ''temp_scan.png'' = Inl (Exception ''cv2.error: unsupported format'')
         \<or> (\<exists>img. cv2_imread env_findContours_raises ''temp_scan.png'' = Inr img
                \<and> cv2_cvtColor env_findContours_raises img COLOR_BGR2GRAY = Inl (Exception ''cv2.error: unsupported format''))
         \<or> (\<exists>img gray. cv2_imread env_findContours_raises ''temp_scan.png'' = Inr img
                \<and> cv2_cvtColor env_findContours_raises img COLOR_BGR2GRAY = Inr gray
                \<and> cv2_threshold env_findContours_raises gray 128 255 (THRESH_BINARY_INV + THRESH_OTSU) = Inl (Exception ''cv2.error: unsupported format''))
         \<or> (\<exists>img gray level binary. cv2_imread env_findContours_raises ''temp_scan.png'' = Inr img
                \<and> cv2_cvtColor env_findContours_raises img COLOR_BGR2GRAY = Inr gray
                \<and> cv2_threshold env_findContours_raises gray 128 255 (THRESH_BINARY_INV + THRESH_OTSU) = Inr (level, binary)
                \<and> cv2_findContours env_findContours_raises binary RETR_EXTERNAL CHAIN_APPROX_SIMPLE = Inl (Exception ''cv2.error: unsupported format''))
         \<or> (\<exists>img gray level binary pre contour post hier. cv2_imread env_findContours_raises ''temp_scan.png'' = Inr img
                \<and> cv2_cvtColor env_findContours_raises img COLOR_BGR2GRAY = Inr gray
                \<and> cv2_threshold env_findContours_raises gray 128 255 (THRESH_BINARY_INV + THRESH_OTSU) = Inr (level, binary)
                \<and> cv2_findContours env_findContours_raises binary RETR_EXTERNAL CHAIN_APPROX_SIMPLE
                    = Inr (pre @ contour # post, hier)
                \<and> (\<forall>c \<in> set pre. \<exists>area. cv2_contourArea env_findContours_raises c = Inr area)
                \<and> cv2_contourArea env_findContours_raises contour = Inl (Exception ''cv2.error: unsupported format''))"
    by blast
  from segment_visual_elements_failure [OF caught fc_h, of "[]", THEN conjunct1]
  have fc_w: "segment_visual_elements env_findContours_raises ''temp_scan.png'' []
     = (Inr (None, []), [StError ''An error occurred while segmenting visual elements: cv2.error: unsupported format''])"
    by simp
  have area: "cv2_imread env_area_raises ''temp_scan.png'' = Inr (Some scene_200)
        \<and> cv2_cvtColor env_area_raises (Some scene_200) COLOR_BGR2GRAY = Inr (replicate 200 (replicate 200 255))
        \<and> cv2_threshold env_area_raises (replicate 200 (replicate 200 255)) 128 255
              (THRESH_BINARY_INV + THRESH_OTSU) = Inr (128, replicate 200 (replicate 200 255))
        \<and> cv2_findContours env_area_raises (replicate 200 (replicate 200 255))
              RETR_EXTERNAL CHAIN_APPROX_SIMPLE = Inr ([square_2500] @ square_500 # [], [])
        \<and> (\<forall>c \<in> set [square_2500]. \<exists>area. cv2_contourArea env_area_raises c = Inr area)
        \<and> cv2_contourArea env_area_raises square_500 = Inl (Exception ''cv2.error: npoints >= 0'')"
    by (simp add: env_area_raises_def env_ok_def squares_differ)
  then have area_h: "cv2_imread env_area_raises ''temp_scan.png'' = Inl (Exception ''cv2.error: npoints >= 0'')
         \<or> (\<exists>img. cv2_imread env_area_raises ''temp_scan.png'' = Inr img
                \<and> cv2_cvtColor env_area_raises img COLOR_BGR2GRAY = Inl (Exception ''cv2.error: npoints >= 0''))
         \<or> (\<exists>img gray. cv2_imread env_area_raises ''temp_scan.png'' = Inr img
                \<and> cv2_cvtColor env_area_raises img COLOR_BGR2GRAY = Inr gray
                \<and> cv2_threshold env_area_raises gray 128 255 (THRESH_BINARY_INV + THRESH_OTSU) = Inl (Exception ''cv2.error: npoints >= 0''))
         \<or> (\<exists>img gray level binary. cv2_imread env_area_raises ''temp_scan.png'' = Inr img
                \<and> cv2_cvtColor env_area_raises img COLOR_BGR2GRAY = Inr gray
                \<and> cv2_threshold env_area_raises gray 128 255 (THRESH_BINARY_INV + THRESH_OTSU) = Inr (level, binary)
                \<and> cv2_findContours env_area_raises binary RETR_EXTERNAL CHAIN_APPROX_SIMPLE = Inl (Exception ''cv2.error: npoints >= 0''))
         \<or> (\<exists>img gray level binary pre contour post hier. cv2_imread env_area_raises ''temp_scan.png'' = Inr img
                \<and> cv2_cvtColor env_area_raises img COLOR_BGR2GRAY = Inr gray
                \<and> cv2_threshold env_area_raises gray 128 255 (THRESH_BINARY_INV + THRESH_OTSU) = Inr (level, binary)
                \<and> cv2_findContours env_area_raises binary RETR_EXTERNAL CHAIN_APPROX_SIMPLE
                    = Inr (pre @ contour # post, hier)
                \<and> (\<forall>c \<in> set pre. \<exists>area. cv2_contourArea env_area_raises c = Inr area)
                \<and> cv2_contourArea env_area_raises contour = Inl (Exception ''cv2.error: npoints >= 0''))"
    by blast
  from segment_visual_elements_failure [OF caught area_h, of "[]", THEN conjunct1]
  have area_w: "segment_visual_elements env_area_raises ''temp_scan.png'' []
     = (Inr (None, []), [StError ''An error occurred while segmenting visual elements: cv2.error: npoints >= 0''])"
    by simp
  have ex1: "extract_text env_unreadable scene_200 [] = (Inr ''INVOICE'', [])"
    by (simp add: extract_text_def env_unreadable_def env_ok_def)
  have mk1: "\<forall>m. os_makedirs env_unreadable ''output_elements'' \<noteq> Inl (BaseException m)"
    by (simp add: env_unreadable_def env_ok_def)
  from segment_visual_elements_failure [OF caught cvt_h, of "[]", THEN conjunct2] ex1 mk1
  have m1: "fst (main_body env_unreadable scene_200 ''temp_scan.png'' [])
     = Inr (''<html><body><p>'' @ ''INVOICE'' @ ''</p></body></html>'')"
    by blast
  have ex2: "extract_text env_area_raises scene_200 [] = (Inr ''INVOICE'', [])"
    by (simp add: extract_text_def env_area_raises_def env_ok_def)
  have mk2: "\<forall>m. os_makedirs env_area_raises ''output_elements'' \<noteq> Inl (BaseException m)"
    by (simp add: env_area_raises_def env_ok_def)
  from segment_visual_elements_failure [OF caught area_h, of "[]", THEN conjunct2] ex2 mk2
  have m2: "fst (main_body env_area_raises scene_200 ''temp_scan.png'' [])
     = Inr (''<html><body><p>'' @ ''INVOICE'' @ ''</p></body></html>'')"
    by blast
  from imread_w cvt_w thr_w fc_w area_w m1 m2 show ?thesis by simp
qed

text \<open>
  C3. When \<^verbatim>\<open>pytesseract.image_to_string\<close> raises a \<^verbatim>\<open>TesseractError\<close> or any other
  \<^verbatim>\<open>Exception\<close>, \<^verbatim>\<open>extract_text\<close> returns exactly
  \<^verbatim>\<open>Text extraction failed. Please try again.\<close> and reports the error; \<^verbatim>\<open>main\<close>
  goes on and, when the later stages return, its report is built from that string
  and the paths of the saved elements.
\<close>

theorem extract_text_failure:
  assumes "image_to_string env upload = Inl e"
    and "is_Exception e"
  shows "fst (extract_text env upload s) = Inr ''Text extraction failed. Please try again.''
         \<and> (\<exists>message. snd (extract_text env upload s) = s @ [StError message])
         \<and> (\<forall>image_path img contours s2 paths s3.
               segment_visual_elements env image_path (snd (extract_text env upload s))
                 = (Inr (img, contours), s2)
               \<longrightarrow> save_visual_elements env img contours ''output_elements'' s2 = (Inr paths, s3)
               \<longrightarrow> show_images env paths = Inr ()
               \<longrightarrow> main_body env upload image_path s
                     = (Inr (generate_html ''Text extraction failed. Please try again.'' paths), s3))"
proof -
  from assms obtain message where
    ex: "extract_text env upload s = (Inr ''Text extraction failed. Please try again.'', s @ [StError message])"
    by (cases e) (simp_all add: extract_text_def extraction_failed_def)
  show ?thesis
  proof (intro conjI allI impI)
    from ex show "fst (extract_text env upload s) = Inr ''Text extraction failed. Please try again.''"
      by simp
    from ex show "\<exists>message. snd (extract_text env upload s) = s @ [StError message]"
      by simp
    fix image_path img contours s2 paths s3
    assume "segment_visual_elements env image_path (snd (extract_text env upload s))
                 = (Inr (img, contours), s2)"
      and "save_visual_elements env img contours ''output_elements'' s2 = (Inr paths, s3)"
      and "show_images env paths = Inr ()"
    with ex show "main_body env upload image_path s
        = (Inr (generate_html ''Text extraction failed. Please try again.'' paths), s3)"
      by (simp add: main_body_def)
  qed
qed


lemma extract_ocr_down:
  "extract_text env_ocr_down scene_200 []
     = (Inr ''Text extraction failed. Please try again.'',
        [StError ''An error occurred while extracting text: (1, Error opening data file)''])"
  by (simp add: extract_text_def extraction_failed_def env_ocr_down_def env_ok_def)

lemma segment_ocr_down:
  "segment_visual_elements env_ocr_down ''temp_scan.png'' s = (Inr (Some scene_200, [square_2500]), s)"
  by (simp add: segment_visual_elements_def segment_try_def env_ocr_down_def env_ok_def squares_differ)

lemma save_ocr_down:
  "save_visual_elements env_ocr_down (Some scene_200) [square_2500] ''output_elements'' s
     = (Inr [''output_elements/element_0.png''],
        s @ [MakeDirs ''output_elements'',
             ImWrite ''output_elements/element_0.png'' (replicate 51 (replicate 51 white))])"
  by (simp add: save_visual_elements_def save_try_def env_ocr_down_def env_ok_def crop_big
        element_name_0 Let_def)

lemma show_ocr_down: "show_images env_ocr_down [''output_elements/element_0.png''] = Inr ()"
  by (simp add: env_ocr_down_def env_ok_def)

theorem extract_text_failure_witness:
  "fst (extract_text env_ocr_down scene_200 []) = Inr ''Text extraction failed. Please try again.''
   \<and> main_body env_ocr_down scene_200 ''temp_scan.png'' []
     = (Inr ''<html><body><p>Text extraction failed. Please try again.</p><img src=\"output_elements/element_0.png\" /></body></html>'',
        [StError ''An error occurred while extracting text: (1, Error opening data file)'',
         MakeDirs ''output_elements'',
         ImWrite ''output_elements/element_0.png'' (replicate 51 (replicate 51 white))])"
proof -
  have raised: "image_to_string env_ocr_down scene_200 = Inl (TesseractError ''(1, Error opening data file)'')"
    by (simp add: env_ocr_down_def env_ok_def)
  have caught: "is_Exception (TesseractError ''(1, Error opening data file)'')" by simp
  note r = extract_text_failure [OF raised caught, of "[]"]
  from r have placeholder:
    "fst (extract_text env_ocr_down scene_200 []) = Inr ''Text extraction failed. Please try again.''"
    by (rule conjunct1)
  have seg: "segment_visual_elements env_ocr_down ''temp_scan.png'' (snd (extract_text env_ocr_down scene_200 []))
      = (Inr (Some scene_200, [square_2500]), snd (extract_text env_ocr_down scene_200 []))"
    by (rule segment_ocr_down)
  from r seg save_ocr_down show_ocr_down
  have "main_body env_ocr_down scene_200 ''temp_scan.png'' []
      = (Inr (generate_html ''Text extraction failed. Please try again.'' [''output_elements/element_0.png'']),
         snd (extract_text env_ocr_down scene_200 [])
           @ [MakeDirs ''output_elements'',
              ImWrite ''output_elements/element_0.png'' (replicate 51 (replicate 51 white))])"
    by blast
  with placeholder show ?thesis
    by (simp add: extract_ocr_down generate_html_closed)
qed

section \<open>Bounding boxes\<close>

lemma area_2500: "contourArea_spec square_2500 = 2500"
  by (simp add: contourArea_spec_def square_2500_def)

lemma area_500: "contourArea_spec square_500 = 500"
  by (simp add: contourArea_spec_def square_500_def)

lemma rect_2500: "boundingRect_spec square_2500 = (10, 10, 51, 51)"
  by (simp add: boundingRect_spec_def square_2500_def)

lemma contourArea_spec_Nil: "contourArea_spec [] = 0"
  by (simp add: contourArea_spec_def)

lemma boundingRect_spec_within:
  assumes "c \<noteq> []"
    and "\<forall>(px, py) \<in> set c. 0 \<le> px \<and> px < width \<and> 0 \<le> py \<and> py < height"
    and "boundingRect_spec c = (x, y, w, h)"
  shows "0 \<le> x \<and> 0 \<le> y \<and> x + w \<le> width \<and> y + h \<le> height \<and> 0 < w \<and> 0 < h"
proof -
  let ?X = "set (map fst c)" and ?Y = "set (map snd c)"
  from assms(1) have fin: "finite ?X" "?X \<noteq> {}" "finite ?Y" "?Y \<noteq> {}" by simp_all
  from assms(2) have X: "\<forall>a \<in> ?X. 0 \<le> a \<and> a < width" and Y: "\<forall>b \<in> ?Y. 0 \<le> b \<and> b < height"
    by auto
  have mem: "Min ?X \<in> ?X" "Max ?X \<in> ?X" "Min ?Y \<in> ?Y" "Max ?Y \<in> ?Y"
    using fin by (blast intro: Min_in Max_in)+
  have le: "Min ?X \<le> Max ?X" "Min ?Y \<le> Max ?Y"
    using fin mem by (blast intro: Min_le)+
  from assms(1,3) have box: "x = Min ?X" "y = Min ?Y" "w = Max ?X - Min ?X + 1" "h = Max ?Y - Min ?Y + 1"
    by (simp_all add: boundingRect_spec_def Let_def)
  from X mem(1,2) have "0 \<le> Min ?X" "Max ?X < width" by blast+
  moreover from Y mem(3,4) have "0 \<le> Min ?Y" "Max ?Y < height" by blast+
  ultimately show ?thesis using le box by simp
qed

text \<open>
  C8. Let \<^verbatim>\<open>cv2.contourArea\<close> and \<^verbatim>\<open>cv2.boundingRect\<close> be as the spec describes them,
  and let the contours found be contours of the image: every point is a pixel of it,
  \<open>0 \<le> px < width\<close> and \<open>0 \<le> py < height\<close>. Then for every contour that the
  filter loop of \<^verbatim>\<open>segment_visual_elements\<close> keeps, the box \<open>(x, y, w, h)\<close> that
  \<^verbatim>\<open>save_visual_elements\<close> gets for it satisfies \<open>0 \<le> x\<close>, \<open>0 \<le> y\<close>,
  \<open>x + w \<le> width\<close>, \<open>y + h \<le> height\<close>, \<open>0 < w\<close> and \<open>0 < h\<close>. The program itself
  checks none of this: it is a property of the two library routines.
\<close>

theorem bounding_box_within_image:
  assumes lib_area: "\<forall>c. cv2_contourArea env c = Inr (contourArea_spec c)"
    and lib_rect: "\<forall>c. cv2_boundingRect env c = Inr (boundingRect_spec c)"
    and inside: "\<forall>c \<in> set contours. \<forall>(px, py) \<in> set c. 0 \<le> px \<and> px < width \<and> 0 \<le> py \<and> py < height"
    and kept: "filter_loop env contours [] = Inr filtered_contours"
    and surv: "contour \<in> set filtered_contours"
    and box: "cv2_boundingRect env contour = Inr (x, y, w, h)"
  shows "0 \<le> x \<and> 0 \<le> y \<and> x + w \<le> width \<and> y + h \<le> height \<and> 0 < w \<and> 0 < h"
proof -
  from lib_area have "\<forall>c \<in> set contours. cv2_contourArea env c = Inr (contourArea_spec c)"
    by simp
  from filter_loop_filter [OF this, of "[]"] kept
  have "filtered_contours = filter (\<lambda>c. 1000 < contourArea_spec c) contours"
    by simp
  with surv have c: "contour \<in> set contours" and big: "1000 < contourArea_spec contour"
    by simp_all
  from big have ne: "contour \<noteq> []"
    using contourArea_spec_Nil by auto
  from c inside have pts: "\<forall>(px, py) \<in> set contour. 0 \<le> px \<and> px < width \<and> 0 \<le> py \<and> py < height"
    by blast
  from box lib_rect have "boundingRect_spec contour = (x, y, w, h)"
    by simp
  from boundingRect_spec_within [OF ne pts this] show ?thesis .
qed


lemma filter_geometry:
  "filter_loop env_geometry [square_2500, square_500] [] = Inr [square_2500]"
  by (simp add: env_geometry_def env_ok_def area_2500 area_500)

theorem bounding_box_within_image_witness:
  "filter_loop env_geometry [square_2500, square_500] [] = Inr [square_2500]
   \<and> cv2_boundingRect env_geometry square_2500 = Inr (10, 10, 51, 51)
   \<and> (0::int) \<le> 10 \<and> (0::int) \<le> 10 \<and> (10::int) + 51 \<le> 200 \<and> (10::int) + 51 \<le> 200
   \<and> (0::int) < 51 \<and> (0::int) < 51"
proof -
  have lib_area: "\<forall>c. cv2_contourArea env_geometry c = Inr (contourArea_spec c)"
    by (simp add: env_geometry_def env_ok_def)
  have lib_rect: "\<forall>c. cv2_boundingRect env_geometry c = Inr (boundingRect_spec c)"
    by (simp add: env_geometry_def env_ok_def)
  have inside: "\<forall>c \<in> set [square_2500, square_500].
      \<forall>(px, py) \<in> set c. 0 \<le> px \<and> px < 200 \<and> 0 \<le> py \<and> py < 200"
    by (simp add: square_2500_def square_500_def)
  have surv: "square_2500 \<in> set [square_2500]" by simp
  have box: "cv2_boundingRect env_geometry square_2500 = Inr (10, 10, 51, 51)"
    by (simp add: env_geometry_def env_ok_def rect_2500)
  from bounding_box_within_image [OF lib_area lib_rect inside filter_geometry surv box]
    filter_geometry box
  show ?thesis by simp
qed

end
